theory Spec2Isabelle
  imports Complex_Main
begin

section \<open>JavaScript numbers, strings and errors\<close>

text \<open>
  Time values are integers (milliseconds since the epoch); an Invalid Date, whose time
  value is NaN, is \<open>None\<close>. The quotients the formatter forms from them are modelled as
  exact real numbers, and the four rounding functions of \<open>Math\<close> take a real number to
  an integer. \<open>Math.round\<close> rounds a tie towards plus infinity.
\<close>

text \<open>
  A difference of two time values is a double-precision number. Up to \<open>2^53\<close> it is
  the exact difference. Beyond, and below \<open>2^54\<close>, where the differences of valid time
  values stay, the doubles are the even integers, and an odd difference is rounded to the
  neighbour that is a multiple of 4 (the one with the even significand).

  The quotients stay exact: the formatter divides such a difference by 1000 or by 60000,
  and the minutes by 60, 1440, 43200 or 525600, and only rounds or compares the results
  with integers. A quotient that is an integer or a half-integer is computed exactly in
  double precision, division is monotone, and the nearest difference below such a point
  gives a quotient more than half a unit in the last place away from it, so that the
  rounded and the compared values are those of the exact quotients.
\<close>

definition doubleOfInt :: "int \<Rightarrow> int" where
  "doubleOfInt x =
     (if \<bar>x\<bar> \<le> 9007199254740992 then x
      else if even x then x
      else if (x + 1) mod 4 = 0 then x + 1
      else x - 1)"

definition Math_round :: "real \<Rightarrow> int" where
  "Math_round x = \<lfloor>x + 1 / 2\<rfloor>"

definition Math_trunc :: "real \<Rightarrow> int" where
  "Math_trunc x = (if x < 0 then \<lceil>x\<rceil> else \<lfloor>x\<rfloor>)"

definition Math_floor :: "real \<Rightarrow> int" where
  "Math_floor x = \<lfloor>x\<rfloor>"

definition Math_ceil :: "real \<Rightarrow> int" where
  "Math_ceil x = \<lceil>x\<rceil>"

datatype error = RangeError | TypeError

text \<open>\<open>Number.prototype.toString\<close> on an integer: its decimal digits.\<close>

fun digits :: "nat \<Rightarrow> string" where
  "digits n =
     (if n < 10 then [''0123456789'' ! n]
      else digits (n div 10) @ [''0123456789'' ! (n mod 10)])"

declare digits.simps [simp del]

definition toString :: "int \<Rightarrow> string" where
  "toString n = (if n < 0 then ''-'' @ digits (nat (- n)) else digits (nat n))"

text \<open>\<open>String.prototype.replace\<close> with a string pattern: the first occurrence only.\<close>

fun replace :: "string \<Rightarrow> string \<Rightarrow> string \<Rightarrow> string" where
  "replace [] pat rep = (if pat = [] then rep else [])"
| "replace (c # cs) pat rep =
     (if take (length pat) (c # cs) = pat then rep @ drop (length pat) (c # cs)
      else c # replace cs pat rep)"

section \<open>The English locale\<close>

datatype token =
    LessThanXSeconds | XSeconds | HalfAMinute | LessThanXMinutes | XMinutes
  | AboutXHours | XHours | XDays | AboutXWeeks | XWeeks | AboutXMonths | XMonths
  | AboutXYears | XYears | OverXYears | AlmostXYears

datatype token_value = Plain string | Plural string string

fun formatDistanceLocale :: "token \<Rightarrow> token_value" where
  "formatDistanceLocale LessThanXSeconds = Plural ''less than a second'' ''less than {{count}} seconds''"
| "formatDistanceLocale XSeconds = Plural ''1 second'' ''{{count}} seconds''"
| "formatDistanceLocale HalfAMinute = Plain ''half a minute''"
| "formatDistanceLocale LessThanXMinutes = Plural ''less than a minute'' ''less than {{count}} minutes''"
| "formatDistanceLocale XMinutes = Plural ''1 minute'' ''{{count}} minutes''"
| "formatDistanceLocale AboutXHours = Plural ''about 1 hour'' ''about {{count}} hours''"
| "formatDistanceLocale XHours = Plural ''1 hour'' ''{{count}} hours''"
| "formatDistanceLocale XDays = Plural ''1 day'' ''{{count}} days''"
| "formatDistanceLocale AboutXWeeks = Plural ''about 1 week'' ''about {{count}} weeks''"
| "formatDistanceLocale XWeeks = Plural ''1 week'' ''{{count}} weeks''"
| "formatDistanceLocale AboutXMonths = Plural ''about 1 month'' ''about {{count}} months''"
| "formatDistanceLocale XMonths = Plural ''1 month'' ''{{count}} months''"
| "formatDistanceLocale AboutXYears = Plural ''about 1 year'' ''about {{count}} years''"
| "formatDistanceLocale XYears = Plural ''1 year'' ''{{count}} years''"
| "formatDistanceLocale OverXYears = Plural ''over 1 year'' ''over {{count}} years''"
| "formatDistanceLocale AlmostXYears = Plural ''almost 1 year'' ''almost {{count}} years''"

text \<open>
  The options a locale's \<open>formatDistance\<close> reads: \<open>addSuffix\<close> and the sign
  \<open>comparison\<close> of the two dates as the caller passed them.
\<close>

record localize_options =
  lo_addSuffix :: bool
  lo_comparison :: int

text \<open>\<open>formatDistance$1\<close>, the \<open>formatDistance\<close> entry of the built-in locale \<open>enUS\<close>.\<close>

definition formatDistance1 :: "token \<Rightarrow> int \<Rightarrow> localize_options \<Rightarrow> string" where
  "formatDistance1 tok count opts =
     (let tokenValue = formatDistanceLocale tok;
          result = (case tokenValue of
                      Plain s \<Rightarrow> s
                    | Plural one other \<Rightarrow>
                        if count = 1 then one
                        else replace other ''{{count}}'' (toString count))
      in if lo_addSuffix opts
         then (if lo_comparison opts > 0 then ''in '' @ result else result @ '' ago'')
         else result)"

text \<open>
  A locale is a JavaScript value: usually an object, which may or may not own a
  \<open>formatDistance\<close> entry. The module keeps one in its variable \<open>locale\<close>, \<open>null\<close> at
  first.
\<close>

record locale_object =
  formatDistance_entry :: "(token \<Rightarrow> int \<Rightarrow> localize_options \<Rightarrow> string) option"

datatype js_value =
    JSUndefined | JSNull | JSBoolean bool | JSNumber int | JSString string
  | JSObject locale_object

definition enUS :: locale_object where
  "enUS = \<lparr>formatDistance_entry = Some formatDistance1\<rparr>"

text \<open>
  \<open>options?.locale ?? defaultOptions.locale ?? enUS\<close>, where \<open>defaultOptions\<close> is the
  empty object, followed by the call \<open>locale.formatDistance(token, count, localizeOptions)\<close>,
  which raises a TypeError when the value has no such function.
\<close>

definition callFormatDistance ::
  "js_value \<Rightarrow> token \<Rightarrow> int \<Rightarrow> localize_options \<Rightarrow> error + string" where
  "callFormatDistance optionsLocale tok count localizeOptions =
     (let locale = (case optionsLocale of
                      JSUndefined \<Rightarrow> JSObject enUS
                    | JSNull \<Rightarrow> JSObject enUS
                    | v \<Rightarrow> v)
      in case locale of
           JSObject obj \<Rightarrow>
             (case formatDistance_entry obj of
                Some f \<Rightarrow> Inr (f tok count localizeOptions)
              | None \<Rightarrow> Inl TypeError)
         | _ \<Rightarrow> Inl TypeError)"

section \<open>The host's Date object\<close>

text \<open>
  The calendar methods of \<open>Date\<close> belong to the JavaScript host and depend on its local
  time zone. They are a parameter of the formatter: a record of the methods the code
  calls, each acting on a valid time value. \<open>Date_parse\<close> is what \<open>new Date(string)\<close>
  computes, \<open>None\<close> for a string the host does not recognise. What \<open>Date.UTC\<close>
  and the setters return is not clipped to the range of \<open>Date\<close>: the hosts meant are
  those in which the local time of the dates at hand stays in that range.
\<close>

record host =
  getFullYear :: "int \<Rightarrow> int"
  getMonth :: "int \<Rightarrow> int"
  getDate :: "int \<Rightarrow> int"
  getHours :: "int \<Rightarrow> int"
  getMinutes :: "int \<Rightarrow> int"
  getSeconds :: "int \<Rightarrow> int"
  getMilliseconds :: "int \<Rightarrow> int"
  Date_UTC :: "int \<Rightarrow> int \<Rightarrow> int \<Rightarrow> int \<Rightarrow> int \<Rightarrow> int \<Rightarrow> int \<Rightarrow> int"
  setUTCFullYear :: "int \<Rightarrow> int \<Rightarrow> int"
  setDate :: "int \<Rightarrow> int \<Rightarrow> int"
  setMonth :: "int \<Rightarrow> int \<Rightarrow> int"
  setHours :: "int \<Rightarrow> int \<Rightarrow> int \<Rightarrow> int \<Rightarrow> int \<Rightarrow> int"
  setFullYear :: "int \<Rightarrow> int \<Rightarrow> int \<Rightarrow> int \<Rightarrow> int"
  Date_parse :: "string \<Rightarrow> int option"

text \<open>
  The \<open>Date\<close> constructor clips its time value: more than 8.64e15 milliseconds from
  the epoch it is NaN, and the date an Invalid Date.
\<close>

definition TimeClip :: "int option \<Rightarrow> int option" where
  "TimeClip time =
     (case time of
        None \<Rightarrow> None
      | Some t \<Rightarrow> if \<bar>t\<bar> \<le> 8640000000000000 then Some t else None)"

text \<open>
  A date argument is a \<open>Date\<close>, a number (an integer, or \<open>None\<close> for NaN) or a
  string. \<open>toDate\<close> is
  \<open>constructFrom(argument, argument)\<close>, which passes the argument to the \<open>Date\<close>
  constructor, so a string goes through the host's own parser, although the comment on
  \<open>toDate\<close> says that an argument that is neither a \<open>Date\<close> nor a number gives an
  Invalid Date.
\<close>

datatype date_arg = ADate "int option" | ANumber "int option" | AString string

fun toDate :: "host \<Rightarrow> date_arg \<Rightarrow> int option" where
  "toDate h (ADate t) = TimeClip t"
| "toDate h (ANumber n) = TimeClip n"
| "toDate h (AString s) = TimeClip (Date_parse h s)"

definition getTimezoneOffsetInMilliseconds :: "host \<Rightarrow> int \<Rightarrow> int" where
  "getTimezoneOffsetInMilliseconds h date =
     (let utcDate = Date_UTC h (getFullYear h date) (getMonth h date) (getDate h date)
                      (getHours h date) (getMinutes h date) (getSeconds h date)
                      (getMilliseconds h date);
          utcDate = setUTCFullYear h utcDate (getFullYear h date)
      in date - utcDate)"

text \<open>
  \<open>compareAsc\<close> on two valid time values. With an Invalid Date the difference is NaN,
  and so is the result; \<open>formatDistance\<close> and \<open>formatDistanceStrict\<close> test for it.
\<close>

definition compareAsc :: "int \<Rightarrow> int \<Rightarrow> int" where
  "compareAsc dateLeft dateRight =
     (let diff = dateLeft - dateRight
      in if diff < 0 then - 1 else if diff > 0 then 1 else diff)"

definition differenceInCalendarMonths :: "host \<Rightarrow> int \<Rightarrow> int \<Rightarrow> int" where
  "differenceInCalendarMonths h laterDate earlierDate =
     (let yearsDiff = getFullYear h laterDate - getFullYear h earlierDate;
          monthsDiff = getMonth h laterDate - getMonth h earlierDate
      in yearsDiff * 12 + monthsDiff)"

definition endOfDay :: "host \<Rightarrow> int \<Rightarrow> int" where
  "endOfDay h date = setHours h date 23 59 59 999"

definition endOfMonth :: "host \<Rightarrow> int \<Rightarrow> int" where
  "endOfMonth h date =
     (let month = getMonth h date;
          date1 = setFullYear h date (getFullYear h date) (month + 1) 0
      in setHours h date1 23 59 59 999)"

definition isLastDayOfMonth :: "host \<Rightarrow> int \<Rightarrow> bool" where
  "isLastDayOfMonth h date = (endOfDay h date = endOfMonth h date)"

definition differenceInMonths :: "host \<Rightarrow> int \<Rightarrow> int \<Rightarrow> int" where
  "differenceInMonths h laterDate earlierDate =
     (let sign = compareAsc laterDate earlierDate;
          difference = \<bar>differenceInCalendarMonths h laterDate earlierDate\<bar>
      in if difference < 1 then 0
         else
           let working1 = (if getMonth h laterDate = 1 \<and> getDate h laterDate > 27
                           then setDate h laterDate 30 else laterDate);
               working2 = setMonth h working1 (getMonth h working1 - sign * difference);
               isLastMonthNotFull = (compareAsc working2 earlierDate = - sign);
               isLastMonthNotFull =
                 (if isLastDayOfMonth h laterDate \<and> difference = 1
                     \<and> compareAsc laterDate earlierDate = 1
                  then False else isLastMonthNotFull);
               result = sign * (difference - (if isLastMonthNotFull then 1 else 0))
           in if result = 0 then 0 else result)"

datatype rounding_method = Floor | Ceil | Round | Trunc

definition getRoundingMethod :: "rounding_method option \<Rightarrow> real \<Rightarrow> int" where
  "getRoundingMethod method number =
     (let round = (case method of
                     None \<Rightarrow> Math_trunc
                   | Some Floor \<Rightarrow> Math_floor
                   | Some Ceil \<Rightarrow> Math_ceil
                   | Some Round \<Rightarrow> Math_round
                   | Some Trunc \<Rightarrow> Math_trunc);
          result = round number
      in if result = 0 then 0 else result)"

definition differenceInMilliseconds :: "int \<Rightarrow> int \<Rightarrow> int" where
  "differenceInMilliseconds laterDate earlierDate = doubleOfInt (laterDate - earlierDate)"

definition differenceInSeconds :: "int \<Rightarrow> int \<Rightarrow> rounding_method option \<Rightarrow> int" where
  "differenceInSeconds laterDate earlierDate roundingMethod =
     (let diff = of_int (differenceInMilliseconds laterDate earlierDate) / 1000
      in getRoundingMethod roundingMethod diff)"

section \<open>The distance formatter\<close>

definition millisecondsInMinute :: int where "millisecondsInMinute = 60000"
definition minutesInYear :: int where "minutesInYear = 525600"
definition minutesInMonth :: int where "minutesInMonth = 43200"
definition minutesInDay :: int where "minutesInDay = 1440"

datatype unit_name = Second | Minute | Hour | Day | Month | Year

record format_options =
  addSuffix :: bool
  includeSeconds :: bool
  unit :: "unit_name option"
  roundingMethod :: "rounding_method option"
  optionsLocale :: js_value

text \<open>
  \<open>formatDistance\<close>. The sign \<open>comparison\<close> is NaN exactly when one of the two time
  values is, which is the last branch: \<open>throw new RangeError("Invalid time value")\<close>.
  After the swap \<open>laterDate'\<close> holds the smaller and \<open>earlierDate'\<close> the larger time
  value (the source's \<open>laterDate_\<close> and \<open>earlierDate_\<close>).
\<close>

definition formatDistance ::
  "host \<Rightarrow> date_arg \<Rightarrow> date_arg \<Rightarrow> format_options \<Rightarrow> error + string" where
  "formatDistance h laterDate earlierDate options =
     (case (toDate h laterDate, toDate h earlierDate) of
        (Some l, Some e) \<Rightarrow>
          (let minutesInAlmostTwoDays = 2520;
               comparison = compareAsc l e;
               localizeOptions = \<lparr>lo_addSuffix = addSuffix options, lo_comparison = comparison\<rparr>;
               (laterDate', earlierDate') = (if comparison > 0 then (e, l) else (l, e));
               seconds = differenceInSeconds earlierDate' laterDate' None;
               offsetInSeconds =
                 of_int (getTimezoneOffsetInMilliseconds h earlierDate'
                         - getTimezoneOffsetInMilliseconds h laterDate') / 1000;
               minutes = Math_round ((of_int seconds - offsetInSeconds) / 60);
               fd = (\<lambda>tok count. callFormatDistance (optionsLocale options) tok count localizeOptions)
           in if minutes < 2 then
                (if includeSeconds options then
                   (if seconds < 5 then fd LessThanXSeconds 5
                    else if seconds < 10 then fd LessThanXSeconds 10
                    else if seconds < 20 then fd LessThanXSeconds 20
                    else if seconds < 40 then fd HalfAMinute 0
                    else if seconds < 60 then fd LessThanXMinutes 1
                    else fd XMinutes 1)
                 else
                   (if minutes = 0 then fd LessThanXMinutes 1
                    else fd XMinutes minutes))
              else if minutes < 45 then fd XMinutes minutes
              else if minutes < 90 then fd AboutXHours 1
              else if minutes < minutesInDay then
                (let hours = Math_round (of_int minutes / 60)
                 in fd AboutXHours hours)
              else if minutes < minutesInAlmostTwoDays then fd XDays 1
              else if minutes < minutesInMonth then
                (let days = Math_round (of_int minutes / of_int minutesInDay)
                 in fd XDays days)
              else if minutes < minutesInMonth * 2 then
                (let months = Math_round (of_int minutes / of_int minutesInMonth)
                 in fd AboutXMonths months)
              else
                (let months = differenceInMonths h earlierDate' laterDate'
                 in if months < 12 then
                      (let nearestMonth = Math_round (of_int minutes / of_int minutesInMonth)
                       in fd XMonths nearestMonth)
                    else
                      (let monthsSinceStartOfYear = months mod 12;
                           years = Math_trunc (of_int months / 12)
                       in if monthsSinceStartOfYear < 3 then fd AboutXYears years
                          else if monthsSinceStartOfYear < 9 then fd OverXYears years
                          else fd AlmostXYears (years + 1))))
      | _ \<Rightarrow> Inl RangeError)"

text \<open>\<open>formatDistanceStrict\<close>; \<open>options?.roundingMethod ?? "round"\<close> is the rounding.\<close>

definition formatDistanceStrict ::
  "host \<Rightarrow> date_arg \<Rightarrow> date_arg \<Rightarrow> format_options \<Rightarrow> error + string" where
  "formatDistanceStrict h laterDate earlierDate options =
     (case (toDate h laterDate, toDate h earlierDate) of
        (Some l, Some e) \<Rightarrow>
          (let comparison = compareAsc l e;
               localizeOptions = \<lparr>lo_addSuffix = addSuffix options, lo_comparison = comparison\<rparr>;
               (laterDate', earlierDate') = (if comparison > 0 then (e, l) else (l, e));
               rounding = getRoundingMethod
                  (Some (case roundingMethod options of None \<Rightarrow> Round | Some m \<Rightarrow> m));
               milliseconds = doubleOfInt (earlierDate' - laterDate');
               minutes = of_int milliseconds / of_int millisecondsInMinute;
               timezoneOffset = getTimezoneOffsetInMilliseconds h earlierDate'
                                - getTimezoneOffsetInMilliseconds h laterDate';
               dstNormalizedMinutes =
                 of_int (doubleOfInt (milliseconds - timezoneOffset))
                 / of_int millisecondsInMinute;
               defaultUnit = unit options;
               unit = (case defaultUnit of
                         None \<Rightarrow>
                           if minutes < 1 then Second
                           else if minutes < 60 then Minute
                           else if minutes < of_int minutesInDay then Hour
                           else if dstNormalizedMinutes < of_int minutesInMonth then Day
                           else if dstNormalizedMinutes < of_int minutesInYear then Month
                           else Year
                       | Some u \<Rightarrow> u);
               fd = (\<lambda>tok count. callFormatDistance (optionsLocale options) tok count localizeOptions)
           in if unit = Second then
                (let seconds = rounding (of_int milliseconds / 1000)
                 in fd XSeconds seconds)
              else if unit = Minute then
                (let roundedMinutes = rounding minutes
                 in fd XMinutes roundedMinutes)
              else if unit = Hour then
                (let hours = rounding (minutes / 60)
                 in fd XHours hours)
              else if unit = Day then
                (let days = rounding (dstNormalizedMinutes / of_int minutesInDay)
                 in fd XDays days)
              else if unit = Month then
                (let months = rounding (dstNormalizedMinutes / of_int minutesInMonth)
                 in if months = 12 \<and> defaultUnit \<noteq> Some Month
                    then fd XYears 1
                    else fd XMonths months)
              else
                (let years = rounding (dstNormalizedMinutes / of_int minutesInYear)
                 in fd XYears years))
      | _ \<Rightarrow> Inl RangeError)"

text \<open>
  \<open>constructNow(date)\<close> is a \<open>Date\<close> holding \<open>Date.now()\<close>, here the argument \<open>now\<close>.
\<close>

definition constructNow :: "int \<Rightarrow> date_arg \<Rightarrow> date_arg" where
  "constructNow now date = ADate (Some now)"

definition formatDistanceToNow ::
  "host \<Rightarrow> int \<Rightarrow> date_arg \<Rightarrow> format_options \<Rightarrow> error + string" where
  "formatDistanceToNow h now date options =
     formatDistance h date (constructNow now date) options"

definition formatDistanceToNowStrict ::
  "host \<Rightarrow> int \<Rightarrow> date_arg \<Rightarrow> format_options \<Rightarrow> error + string" where
  "formatDistanceToNowStrict h now date options =
     formatDistanceStrict h date (constructNow now date) options"

section \<open>A concrete host\<close>

text \<open>
  The \<open>Date\<close> methods as ECMAScript defines them, over the proleptic Gregorian calendar,
  for a local time zone given by its offset from UTC at each instant.
\<close>

definition msPerDay :: int where "msPerDay = 86400000"

text \<open>
  Days are counted in eras of 400 years that begin on a first of March, so that the leap
  day is the last day of a year: \<open>eraDay\<close> is the day within the era, \<open>yearOfEra\<close> the
  year that day falls in, \<open>dayOfYear\<close> the day within that year, from which the month
  (0 for January) and the day of the month follow.
\<close>

definition era :: "int \<Rightarrow> int" where
  "era t = (t div msPerDay + 719468) div 146097"

definition eraDay :: "int \<Rightarrow> int" where
  "eraDay t = (t div msPerDay + 719468) mod 146097"

definition yearOfEra :: "int \<Rightarrow> int" where
  "yearOfEra doe = (doe - doe div 1460 + doe div 36524 - doe div 146096) div 365"

definition dayOfYear :: "int \<Rightarrow> int" where
  "dayOfYear doe =
     doe - (365 * yearOfEra doe + yearOfEra doe div 4 - yearOfEra doe div 100)"

definition monthOfDay :: "int \<Rightarrow> int" where
  "monthOfDay doy =
     (if (5 * doy + 2) div 153 < 10 then (5 * doy + 2) div 153 + 2
      else (5 * doy + 2) div 153 - 10)"

definition dateOfDay :: "int \<Rightarrow> int" where
  "dateOfDay doy = doy - (153 * ((5 * doy + 2) div 153) + 2) div 5 + 1"

definition MonthFromTime :: "int \<Rightarrow> int" where
  "MonthFromTime t = monthOfDay (dayOfYear (eraDay t))"

definition DateFromTime :: "int \<Rightarrow> int" where
  "DateFromTime t = dateOfDay (dayOfYear (eraDay t))"

definition YearFromTime :: "int \<Rightarrow> int" where
  "YearFromTime t =
     yearOfEra (eraDay t) + era t * 400 + (if MonthFromTime t \<le> 1 then 1 else 0)"

definition TimeWithinDay :: "int \<Rightarrow> int" where
  "TimeWithinDay t = t mod msPerDay"

definition MakeTime :: "int \<Rightarrow> int \<Rightarrow> int \<Rightarrow> int \<Rightarrow> int" where
  "MakeTime hour minute sec ms = hour * 3600000 + minute * 60000 + sec * 1000 + ms"

text \<open>The day number of the first day of a month (0 to 11) of a year.\<close>

definition marchYear :: "int \<Rightarrow> int \<Rightarrow> int" where
  "marchYear year month = (if month \<le> 1 then year - 1 else year)"

definition marchMonth :: "int \<Rightarrow> int" where
  "marchMonth month = (if month \<le> 1 then month + 10 else month - 2)"

definition DayFromYearMonth :: "int \<Rightarrow> int \<Rightarrow> int" where
  "DayFromYearMonth year month =
     marchYear year month div 400 * 146097
     + (marchYear year month mod 400) * 365
     + marchYear year month mod 400 div 4
     - marchYear year month mod 400 div 100
     + (153 * marchMonth month + 2) div 5
     - 719468"

definition MakeDay :: "int \<Rightarrow> int \<Rightarrow> int \<Rightarrow> int" where
  "MakeDay year month date =
     DayFromYearMonth (year + month div 12) (month mod 12) + date - 1"

definition MakeDate :: "int \<Rightarrow> int \<Rightarrow> int" where
  "MakeDate day time = day * msPerDay + time"

definition digitValue :: "char \<Rightarrow> int option" where
  "digitValue c =
     (let n = (of_char c :: nat)
      in if 48 \<le> n \<and> n \<le> 57 then Some (int n - 48) else None)"

fun numberValue :: "int \<Rightarrow> string \<Rightarrow> int option" where
  "numberValue acc [] = Some acc"
| "numberValue acc (c # cs) =
     (case digitValue c of None \<Rightarrow> None | Some d \<Rightarrow> numberValue (10 * acc + d) cs)"

text \<open>
  The date-time string format every host must recognise, in its complete UTC form
  \<open>YYYY-MM-DDTHH:mm:ss.sssZ\<close>.
\<close>

definition parseDateTimeString :: "string \<Rightarrow> int option" where
  "parseDateTimeString s =
     (if length s = 24 \<and> s ! 4 = CHR ''-'' \<and> s ! 7 = CHR ''-'' \<and> s ! 10 = CHR ''T''
         \<and> s ! 13 = CHR '':'' \<and> s ! 16 = CHR '':'' \<and> s ! 19 = CHR ''.'' \<and> s ! 23 = CHR ''Z''
      then
        (case (numberValue 0 (take 4 s), numberValue 0 (take 2 (drop 5 s)),
               numberValue 0 (take 2 (drop 8 s)), numberValue 0 (take 2 (drop 11 s)),
               numberValue 0 (take 2 (drop 14 s)), numberValue 0 (take 2 (drop 17 s)),
               numberValue 0 (take 3 (drop 20 s))) of
           (Some y, Some mo, Some d, Some hh, Some mi, Some ss, Some ms) \<Rightarrow>
             if 1 \<le> mo \<and> mo \<le> 12 \<and> 1 \<le> d \<and> d \<le> 31 \<and> hh \<le> 23 \<and> mi \<le> 59 \<and> ss \<le> 59
             then Some (MakeDate (MakeDay y (mo - 1) d) (MakeTime hh mi ss ms))
             else None
         | _ \<Rightarrow> None)
      else None)"

definition LocalTime :: "(int \<Rightarrow> int) \<Rightarrow> int \<Rightarrow> int" where
  "LocalTime offset t = t + offset t"

definition UTC :: "(int \<Rightarrow> int) \<Rightarrow> int \<Rightarrow> int" where
  "UTC offset t = t - offset (t - offset t)"

definition zoneHost :: "(int \<Rightarrow> int) \<Rightarrow> host" where
  "zoneHost offset =
     \<lparr>getFullYear = (\<lambda>t. YearFromTime (LocalTime offset t)),
      getMonth = (\<lambda>t. MonthFromTime (LocalTime offset t)),
      getDate = (\<lambda>t. DateFromTime (LocalTime offset t)),
      getHours = (\<lambda>t. TimeWithinDay (LocalTime offset t) div 3600000),
      getMinutes = (\<lambda>t. TimeWithinDay (LocalTime offset t) div 60000 mod 60),
      getSeconds = (\<lambda>t. TimeWithinDay (LocalTime offset t) div 1000 mod 60),
      getMilliseconds = (\<lambda>t. TimeWithinDay (LocalTime offset t) mod 1000),
      Date_UTC = (\<lambda>year month date hours minutes seconds ms.
         MakeDate (MakeDay (if 0 \<le> year \<and> year \<le> 99 then 1900 + year else year) month date)
                  (MakeTime hours minutes seconds ms)),
      setUTCFullYear = (\<lambda>t year.
         MakeDate (MakeDay year (MonthFromTime t) (DateFromTime t)) (TimeWithinDay t)),
      setDate = (\<lambda>t date.
         UTC offset (MakeDate (MakeDay (YearFromTime (LocalTime offset t))
                                       (MonthFromTime (LocalTime offset t)) date)
                              (TimeWithinDay (LocalTime offset t)))),
      setMonth = (\<lambda>t month.
         UTC offset (MakeDate (MakeDay (YearFromTime (LocalTime offset t)) month
                                       (DateFromTime (LocalTime offset t)))
                              (TimeWithinDay (LocalTime offset t)))),
      setHours = (\<lambda>t hours minutes seconds ms.
         UTC offset (MakeDate (LocalTime offset t div msPerDay)
                              (MakeTime hours minutes seconds ms))),
      setFullYear = (\<lambda>t year month date.
         UTC offset (MakeDate (MakeDay year month date)
                              (TimeWithinDay (LocalTime offset t)))),
      Date_parse = parseDateTimeString\<rparr>"

text \<open>A host in the UTC zone.\<close>

definition utcHost :: host where
  "utcHost = zoneHost (\<lambda>t. 0)"


section \<open>What the formatter passes to the locale\<close>

text \<open>
  The token and the count that \<open>formatDistance\<close> hands to the locale, as a function of
  the two time values in ascending order: the branches of its body, without the call.
\<close>

definition approxToken :: "host \<Rightarrow> bool \<Rightarrow> int \<Rightarrow> int \<Rightarrow> token \<times> int" where
  "approxToken h withSeconds lo hi =
     (let seconds = differenceInSeconds hi lo None;
          offsetInSeconds =
            of_int (getTimezoneOffsetInMilliseconds h hi
                    - getTimezoneOffsetInMilliseconds h lo) / 1000;
          minutes = Math_round ((of_int seconds - offsetInSeconds) / 60)
      in if minutes < 2 then
           (if withSeconds then
              (if seconds < 5 then (LessThanXSeconds, 5)
               else if seconds < 10 then (LessThanXSeconds, 10)
               else if seconds < 20 then (LessThanXSeconds, 20)
               else if seconds < 40 then (HalfAMinute, 0)
               else if seconds < 60 then (LessThanXMinutes, 1)
               else (XMinutes, 1))
            else (if minutes = 0 then (LessThanXMinutes, 1) else (XMinutes, minutes)))
         else if minutes < 45 then (XMinutes, minutes)
         else if minutes < 90 then (AboutXHours, 1)
         else if minutes < 1440 then (AboutXHours, Math_round (of_int minutes / 60))
         else if minutes < 2520 then (XDays, 1)
         else if minutes < 43200 then (XDays, Math_round (of_int minutes / 1440))
         else if minutes < 86400 then (AboutXMonths, Math_round (of_int minutes / 43200))
         else
           (let months = differenceInMonths h hi lo
            in if months < 12 then (XMonths, Math_round (of_int minutes / 43200))
               else if months mod 12 < 3 then (AboutXYears, Math_trunc (of_int months / 12))
               else if months mod 12 < 9 then (OverXYears, Math_trunc (of_int months / 12))
               else (AlmostXYears, Math_trunc (of_int months / 12) + 1)))"

text \<open>The same for \<open>formatDistanceStrict\<close>.\<close>

definition strictToken ::
  "host \<Rightarrow> unit_name option \<Rightarrow> rounding_method option \<Rightarrow> int \<Rightarrow> int \<Rightarrow> token \<times> int" where
  "strictToken h defaultUnit method lo hi =
     (let rounding = getRoundingMethod (Some (case method of None \<Rightarrow> Round | Some m \<Rightarrow> m));
          milliseconds = doubleOfInt (hi - lo);
          minutes = real_of_int milliseconds / 60000;
          timezoneOffset = getTimezoneOffsetInMilliseconds h hi
                           - getTimezoneOffsetInMilliseconds h lo;
          dstNormalizedMinutes =
            real_of_int (doubleOfInt (milliseconds - timezoneOffset)) / 60000;
          unit = (case defaultUnit of
                    None \<Rightarrow>
                      if minutes < 1 then Second
                      else if minutes < 60 then Minute
                      else if minutes < 1440 then Hour
                      else if dstNormalizedMinutes < 43200 then Day
                      else if dstNormalizedMinutes < 525600 then Month
                      else Year
                  | Some u \<Rightarrow> u)
      in case unit of
           Second \<Rightarrow> (XSeconds, rounding (real_of_int milliseconds / 1000))
         | Minute \<Rightarrow> (XMinutes, rounding minutes)
         | Hour \<Rightarrow> (XHours, rounding (minutes / 60))
         | Day \<Rightarrow> (XDays, rounding (dstNormalizedMinutes / 1440))
         | Month \<Rightarrow>
             (if rounding (dstNormalizedMinutes / 43200) = 12 \<and> defaultUnit \<noteq> Some Month
              then (XYears, 1)
              else (XMonths, rounding (dstNormalizedMinutes / 43200)))
         | Year \<Rightarrow> (XYears, rounding (dstNormalizedMinutes / 525600)))"

section \<open>The ladder of the approximate mode\<close>

text \<open>
  The rounded, DST-corrected minute count of two time values, and the ladder that reads
  the token off it while the count is below two months.
\<close>

definition roundedMinutes :: "host \<Rightarrow> int \<Rightarrow> int \<Rightarrow> int" where
  "roundedMinutes h a b =
     (let lo = min a b; hi = max a b;
          seconds = differenceInSeconds hi lo None;
          offsetInSeconds =
            real_of_int (getTimezoneOffsetInMilliseconds h hi
                         - getTimezoneOffsetInMilliseconds h lo) / 1000
      in Math_round ((real_of_int seconds - offsetInSeconds) / 60))"

definition ladder :: "int \<Rightarrow> token \<times> int" where
  "ladder m =
     (if m = 0 then (LessThanXMinutes, 1)
      else if m = 1 then (XMinutes, 1)
      else if 2 \<le> m \<and> m \<le> 44 then (XMinutes, m)
      else if 45 \<le> m \<and> m \<le> 89 then (AboutXHours, 1)
      else if 90 \<le> m \<and> m \<le> 1439 then (AboutXHours, Math_round (real_of_int m / 60))
      else if 1440 \<le> m \<and> m \<le> 2519 then (XDays, 1)
      else if 2520 \<le> m \<and> m \<le> 43199 then (XDays, Math_round (real_of_int m / 1440))
      else (AboutXMonths, Math_round (real_of_int m / 43200)))"

section \<open>The unit and magnitude of the strict mode\<close>

text \<open>
  The raw and the DST-corrected distance in minutes, each from a difference in double
  precision, the unit that the minute thresholds select, and the rounding in force (to
  the nearest integer when the option is absent).
\<close>

definition rawMinutes :: "int \<Rightarrow> int \<Rightarrow> real" where
  "rawMinutes a b = real_of_int (doubleOfInt \<bar>a - b\<bar>) / 60000"

definition dstMinutes :: "host \<Rightarrow> int \<Rightarrow> int \<Rightarrow> real" where
  "dstMinutes h a b =
     real_of_int
       (doubleOfInt (doubleOfInt \<bar>a - b\<bar> - (getTimezoneOffsetInMilliseconds h (max a b)
                                              - getTimezoneOffsetInMilliseconds h (min a b))))
     / 60000"

definition autoUnit :: "host \<Rightarrow> int \<Rightarrow> int \<Rightarrow> unit_name" where
  "autoUnit h a b =
     (if rawMinutes a b < 1 then Second
      else if rawMinutes a b < 60 then Minute
      else if rawMinutes a b < 1440 then Hour
      else if dstMinutes h a b < 43200 then Day
      else if dstMinutes h a b < 525600 then Month
      else Year)"

definition roundingOrDefault :: "rounding_method option \<Rightarrow> real \<Rightarrow> int" where
  "roundingOrDefault method x =
     (case method of
        None \<Rightarrow> Math_round x
      | Some Floor \<Rightarrow> Math_floor x
      | Some Ceil \<Rightarrow> Math_ceil x
      | Some Round \<Rightarrow> Math_round x
      | Some Trunc \<Rightarrow> Math_trunc x)"






section \<open>The live binding controller\<close>

text \<open>
  One binding of the directive: the module's variable \<open>locale\<close>, the element's text,
  what was written to \<open>console.error\<close>, the variable \<open>interval\<close> (\<open>None\<close> is
  \<open>undefined\<close>), the host's table of the live interval timers of this binding, each
  with the date its callback captured and its period in milliseconds, the last timer
  identifier the host gave out, and the host calls made so far, in order.
\<close>

datatype host_call =
    ClearInterval "nat option"
  | SetInterval nat nat
  | SetTextContent string
  | ConsoleError error
  | DispatchEvent bool

record world =
  moduleLocale :: js_value
  textContent :: string
  console :: "error list"
  interval :: "nat option"
  timers :: "nat \<rightharpoonup> date_arg \<times> nat"
  nextTimer :: nat
  calls :: "host_call list"

text \<open>
  \<open>setInterval\<close> returns a fresh identifier, never 0; \<open>clearInterval\<close> removes the
  timer, if it is still live. \<open>if (interval)\<close> tests the identifier for truthiness.
\<close>

definition setInterval :: "date_arg \<Rightarrow> nat \<Rightarrow> world \<Rightarrow> nat \<times> world" where
  "setInterval date period w =
     (let tid = Suc (nextTimer w)
      in (tid, w\<lparr>timers := (timers w)(tid \<mapsto> (date, period)), nextTimer := tid,
                calls := calls w @ [SetInterval tid period]\<rparr>))"

definition clearInterval :: "nat option \<Rightarrow> world \<Rightarrow> world" where
  "clearInterval handle w =
     (case handle of
        None \<Rightarrow> w\<lparr>calls := calls w @ [ClearInterval None]\<rparr>
      | Some tid \<Rightarrow> w\<lparr>timers := (timers w)(tid := None),
                        calls := calls w @ [ClearInterval (Some tid)]\<rparr>)"

definition truthy :: "nat option \<Rightarrow> bool" where
  "truthy handle = (case handle of None \<Rightarrow> False | Some tid \<Rightarrow> tid \<noteq> 0)"

text \<open>
  \<open>modifiers[modifiers.findIndex((m) => m === name) + 1] || undefined\<close>, read only when
  the name is among the modifiers, and the two \<open>switch\<close> statements on it.
\<close>

fun elementAfter :: "string \<Rightarrow> string list \<Rightarrow> string option" where
  "elementAfter name [] = None"
| "elementAfter name (m # ms) =
     (if m = name then (case ms of [] \<Rightarrow> None | v # _ \<Rightarrow> Some v)
      else elementAfter name ms)"

definition unitModifier :: "string list \<Rightarrow> unit_name option" where
  "unitModifier modifiers =
     (if ''unit'' \<in> set modifiers then
        (let innerUnit = elementAfter ''unit'' modifiers
         in if innerUnit = Some ''second'' then Some Second
            else if innerUnit = Some ''minute'' then Some Minute
            else if innerUnit = Some ''hour'' then Some Hour
            else if innerUnit = Some ''day'' then Some Day
            else if innerUnit = Some ''month'' then Some Month
            else if innerUnit = Some ''year'' then Some Year
            else None)
      else None)"

definition roundingModifier :: "string list \<Rightarrow> rounding_method option" where
  "roundingModifier modifiers =
     (if ''rounding'' \<in> set modifiers then
        (let innerRounding = elementAfter ''rounding'' modifiers
         in if innerRounding = Some ''floor'' then Some Floor
            else if innerRounding = Some ''ceil'' then Some Ceil
            else if innerRounding = Some ''round'' then Some Round
            else None)
      else None)"

text \<open>
  What \<open>render\<close> assigns to \<open>el.textContent\<close>, and \<open>render\<close> itself with its
  \<open>try\<close> and \<open>catch\<close>. \<open>now\<close> is the value of \<open>Date.now()\<close> at the call.
\<close>

definition formatLabel ::
  "host \<Rightarrow> string list \<Rightarrow> js_value \<Rightarrow> int \<Rightarrow> date_arg \<Rightarrow> error + string" where
  "formatLabel h modifiers loc now date =
     (if ''strict'' \<in> set modifiers then
        formatDistanceToNowStrict h now date
          \<lparr>addSuffix = ''pure'' \<notin> set modifiers, includeSeconds = False,
             unit = unitModifier modifiers, roundingMethod = roundingModifier modifiers,
             optionsLocale = loc\<rparr>
      else
        formatDistanceToNow h now date
          \<lparr>addSuffix = ''pure'' \<notin> set modifiers,
             includeSeconds = ''seconds'' \<in> set modifiers,
             unit = None, roundingMethod = None, optionsLocale = loc\<rparr>)"

definition render :: "host \<Rightarrow> string list \<Rightarrow> int \<Rightarrow> date_arg \<Rightarrow> world \<Rightarrow> world" where
  "render h modifiers now date w =
     (case formatLabel h modifiers (moduleLocale w) now date of
        Inr label \<Rightarrow> w\<lparr>textContent := label, calls := calls w @ [SetTextContent label]\<rparr>
      | Inl e \<Rightarrow> w\<lparr>console := console w @ [e], calls := calls w @ [ConsoleError e]\<rparr>)"

definition intervalDuration :: "string list \<Rightarrow> nat" where
  "intervalDuration modifiers = (if ''seconds'' \<in> set modifiers then 5000 else 30000)"

text \<open>
  The callback of \<open>effect\<close>, run with the value of the bound expression. \<open>parseISO\<close>
  takes a string to the time value of a \<open>Date\<close>, invalid when the text is not an ISO
  8601 date; the parser is a parameter of the controller.
\<close>

definition effect ::
  "host \<Rightarrow> (string \<Rightarrow> int option) \<Rightarrow> string list \<Rightarrow> int \<Rightarrow> date_arg \<Rightarrow> world \<Rightarrow> world" where
  "effect h parseISO modifiers now date w =
     (let w1 = (if truthy (interval w) then clearInterval (interval w) w else w);
          parsedDate = (case date of AString s \<Rightarrow> ADate (parseISO s) | _ \<Rightarrow> date);
          w2 = render h modifiers now parsedDate w1;
          (tid, w3) = setInterval parsedDate (intervalDuration modifiers) w2
      in w3\<lparr>interval := Some tid\<rparr>)"

text \<open>
  A timer fires only while it is live, and renders the date it captured. \<open>cleanup\<close>
  runs when the element is removed.
\<close>

definition tick :: "host \<Rightarrow> string list \<Rightarrow> int \<Rightarrow> nat \<Rightarrow> world \<Rightarrow> world" where
  "tick h modifiers now tid w =
     (case timers w tid of
        None \<Rightarrow> w
      | Some (date, period) \<Rightarrow> render h modifiers now date w)"

definition cleanup :: "world \<Rightarrow> world" where
  "cleanup w = clearInterval (interval w) w"

datatype event = Effect int date_arg | Tick int nat | Cleanup

fun step :: "host \<Rightarrow> (string \<Rightarrow> int option) \<Rightarrow> string list \<Rightarrow> world \<Rightarrow> event \<Rightarrow> world" where
  "step h parseISO modifiers w (Effect now date) = effect h parseISO modifiers now date w"
| "step h parseISO modifiers w (Tick now tid) = tick h modifiers now tid w"
| "step h parseISO modifiers w Cleanup = cleanup w"

definition attached :: "js_value \<Rightarrow> string \<Rightarrow> world" where
  "attached loc text =
     \<lparr>moduleLocale = loc, textContent = text, console = [], interval = None,
        timers = Map.empty, nextTimer = 0, calls = []\<rparr>"

text \<open>
  The states a binding reaches from its attachment, the call that one \<open>render\<close> makes,
  and the date that the callback of \<open>effect\<close> renders.
\<close>

definition run ::
  "host \<Rightarrow> (string \<Rightarrow> int option) \<Rightarrow> string list \<Rightarrow> world \<Rightarrow> event list \<Rightarrow> world" where
  "run h parseISO modifiers w events = foldl (step h parseISO modifiers) w events"

definition renderCall ::
  "host \<Rightarrow> string list \<Rightarrow> js_value \<Rightarrow> int \<Rightarrow> date_arg \<Rightarrow> host_call" where
  "renderCall h modifiers loc now date =
     (case formatLabel h modifiers loc now date of
        Inr label \<Rightarrow> SetTextContent label
      | Inl e \<Rightarrow> ConsoleError e)"

definition resolved :: "(string \<Rightarrow> int option) \<Rightarrow> date_arg \<Rightarrow> date_arg" where
  "resolved parseISO date = (case date of AString s \<Rightarrow> ADate (parseISO s) | _ \<Rightarrow> date)"

subsection \<open>The variant with visibility gating\<close>

text \<open>
  Here \<open>render\<close> parses a string itself, before its \<open>try\<close>, and dispatches the event
  \<open>timeago:render\<close> after the assignment; the timer captures the unparsed value. The
  callback of the \<open>IntersectionObserver\<close> gets the entry's \<open>isIntersecting\<close> and, when
  that is true, the current value of the bound expression.
\<close>

definition isPast :: "host \<Rightarrow> int \<Rightarrow> date_arg \<Rightarrow> bool" where
  "isPast h now date = (case toDate h date of Some t \<Rightarrow> t < now | None \<Rightarrow> False)"

definition dispatch :: "host \<Rightarrow> int \<Rightarrow> date_arg \<Rightarrow> world \<Rightarrow> world" where
  "dispatch h now date w = w\<lparr>calls := calls w @ [DispatchEvent (isPast h now date)]\<rparr>"

definition render_js ::
  "host \<Rightarrow> (string \<Rightarrow> int option) \<Rightarrow> string list \<Rightarrow> int \<Rightarrow> date_arg \<Rightarrow> world \<Rightarrow> world" where
  "render_js h parseISO modifiers now date w =
     (let date = (case date of AString s \<Rightarrow> ADate (parseISO s) | _ \<Rightarrow> date)
      in case formatLabel h modifiers (moduleLocale w) now date of
           Inr label \<Rightarrow>
             dispatch h now date
               (w\<lparr>textContent := label, calls := calls w @ [SetTextContent label]\<rparr>)
         | Inl e \<Rightarrow> w\<lparr>console := console w @ [e], calls := calls w @ [ConsoleError e]\<rparr>)"

definition setupInterval :: "string list \<Rightarrow> date_arg \<Rightarrow> world \<Rightarrow> world" where
  "setupInterval modifiers date w =
     (let (tid, w1) = setInterval date (intervalDuration modifiers) w
      in w1\<lparr>interval := Some tid\<rparr>)"

definition intersectionObserver ::
  "host \<Rightarrow> (string \<Rightarrow> int option) \<Rightarrow> string list \<Rightarrow> int \<Rightarrow> bool \<Rightarrow> date_arg \<Rightarrow> world \<Rightarrow> world" where
  "intersectionObserver h parseISO modifiers now isIntersecting date w =
     (if isIntersecting then
        (if \<not> truthy (interval w)
         then render_js h parseISO modifiers now date (setupInterval modifiers date w)
         else w)
      else
        (if truthy (interval w)
         then (clearInterval (interval w) w)\<lparr>interval := None\<rparr>
         else w))"

definition effect_js ::
  "host \<Rightarrow> (string \<Rightarrow> int option) \<Rightarrow> string list \<Rightarrow> int \<Rightarrow> date_arg \<Rightarrow> world \<Rightarrow> world" where
  "effect_js h parseISO modifiers now date w =
     (let w1 = (if truthy (interval w) then clearInterval (interval w) w else w);
          w2 = render_js h parseISO modifiers now date w1
      in setupInterval modifiers date w2)"

definition tick_js ::
  "host \<Rightarrow> (string \<Rightarrow> int option) \<Rightarrow> string list \<Rightarrow> int \<Rightarrow> nat \<Rightarrow> world \<Rightarrow> world" where
  "tick_js h parseISO modifiers now tid w =
     (case timers w tid of
        None \<Rightarrow> w
      | Some (date, period) \<Rightarrow> render_js h parseISO modifiers now date w)"

datatype event_js =
    EffectJS int date_arg
  | Intersection int bool date_arg
  | TickJS int nat
  | CleanupJS

fun step_js ::
  "host \<Rightarrow> (string \<Rightarrow> int option) \<Rightarrow> string list \<Rightarrow> world \<Rightarrow> event_js \<Rightarrow> world" where
  "step_js h parseISO modifiers w (EffectJS now date) = effect_js h parseISO modifiers now date w"
| "step_js h parseISO modifiers w (Intersection now isIntersecting date) =
     intersectionObserver h parseISO modifiers now isIntersecting date w"
| "step_js h parseISO modifiers w (TickJS now tid) = tick_js h parseISO modifiers now tid w"
| "step_js h parseISO modifiers w CleanupJS = cleanup w"

definition run_js ::
  "host \<Rightarrow> (string \<Rightarrow> int option) \<Rightarrow> string list \<Rightarrow> world \<Rightarrow> event_js list \<Rightarrow> world" where
  "run_js h parseISO modifiers w events = foldl (step_js h parseISO modifiers) w events"

subsection \<open>Configuration\<close>

text \<open>
  The configuration object: its own property \<open>locale\<close>, when it has one. The call
  returns the plugin function \<open>TimeAgo\<close>.
\<close>

record config =
  config_locale :: "js_value option"

datatype plugin = TimeAgo

definition truthyValue :: "js_value \<Rightarrow> bool" where
  "truthyValue v =
     (case v of
        JSUndefined \<Rightarrow> False
      | JSNull \<Rightarrow> False
      | JSBoolean b \<Rightarrow> b
      | JSNumber n \<Rightarrow> n \<noteq> 0
      | JSString s \<Rightarrow> s \<noteq> []
      | JSObject obj \<Rightarrow> True)"

text \<open>The TypeScript variants: \<open>if (config.locale) { locale = config.locale; }\<close>.\<close>

definition configure :: "config \<Rightarrow> world \<Rightarrow> plugin \<times> world" where
  "configure cfg w =
     (let value = (case config_locale cfg of None \<Rightarrow> JSUndefined | Some v \<Rightarrow> v)
      in if truthyValue value then (TimeAgo, w\<lparr>moduleLocale := value\<rparr>) else (TimeAgo, w))"

text \<open>
  The JavaScript variants test \<open>config.hasOwnProperty("locale")\<close>, then
  \<open>typeof config.locale === "object"\<close>, which holds of \<open>null\<close> too, then
  \<open>config.locale.hasOwnProperty("formatDistance")\<close>, which raises a TypeError on \<open>null\<close>.
\<close>

definition configure_js :: "config \<Rightarrow> world \<Rightarrow> error + plugin \<times> world" where
  "configure_js cfg w =
     (case config_locale cfg of
        None \<Rightarrow> Inr (TimeAgo, w)
      | Some JSNull \<Rightarrow> Inl TypeError
      | Some (JSObject obj) \<Rightarrow>
          (if formatDistance_entry obj \<noteq> None
           then Inr (TimeAgo, w\<lparr>moduleLocale := JSObject obj\<rparr>)
           else Inr (TimeAgo, w))
      | Some _ \<Rightarrow> Inr (TimeAgo, w))"

subsection \<open>The magic function\<close>

text \<open>
  \<open>$timeago(expression, pure, seconds, strictOptions)\<close>: the expression goes to the
  formatter as it is.
\<close>

record strictOptions =
  strict :: bool
  strictUnit :: "unit_name option"
  strictRoundingMethod :: "rounding_method option"

definition timeago ::
  "host \<Rightarrow> js_value \<Rightarrow> int \<Rightarrow> date_arg \<Rightarrow> bool option \<Rightarrow> bool option
     \<Rightarrow> strictOptions option \<Rightarrow> error + string" where
  "timeago h loc now expression pure seconds strictOpts =
     (let pure = (case pure of None \<Rightarrow> False | Some p \<Rightarrow> p);
          seconds = (case seconds of None \<Rightarrow> False | Some s \<Rightarrow> s)
      in case strictOpts of
           Some so \<Rightarrow>
             if strict so then
               formatDistanceToNowStrict h now expression
                 \<lparr>addSuffix = \<not> pure, includeSeconds = False, unit = strictUnit so,
                    roundingMethod = strictRoundingMethod so, optionsLocale = loc\<rparr>
             else
               formatDistanceToNow h now expression
                 \<lparr>addSuffix = \<not> pure, includeSeconds = seconds, unit = None,
                    roundingMethod = None, optionsLocale = loc\<rparr>
         | None \<Rightarrow>
             formatDistanceToNow h now expression
               \<lparr>addSuffix = \<not> pure, includeSeconds = seconds, unit = None,
                  roundingMethod = None, optionsLocale = loc\<rparr>)"

text \<open>
  What holds of every state a binding reaches: a live timer is the one \<open>interval\<close>
  names, and identifiers are positive and were given out by the host.
\<close>

definition invariant :: "world \<Rightarrow> bool" where
  "invariant w \<longleftrightarrow>
     (\<forall>tid \<in> dom (timers w). interval w = Some tid)
     \<and> (\<forall>tid. interval w = Some tid \<longrightarrow> 0 < tid \<and> tid \<le> nextTimer w)"

section \<open>Properties of the formatter\<close>

lemma TimeClip_simps [simp]:
  "TimeClip None = None"
  "\<bar>t\<bar> \<le> 8640000000000000 \<Longrightarrow> TimeClip (Some t) = Some t"
  "8640000000000000 < \<bar>t\<bar> \<Longrightarrow> TimeClip (Some t) = None"
  by (simp_all add: TimeClip_def)

lemma doubleOfInt_exact [simp]: "\<bar>x\<bar> \<le> 9007199254740992 \<Longrightarrow> doubleOfInt x = x"
  by (simp add: doubleOfInt_def)

lemma compareAsc_pos: "compareAsc a b > 0 \<longleftrightarrow> a > b"
  by (simp add: compareAsc_def Let_def)

lemma formatDistance_token:
  "formatDistance h laterDate earlierDate options =
     (case (toDate h laterDate, toDate h earlierDate) of
        (Some a, Some b) \<Rightarrow>
          callFormatDistance (optionsLocale options)
            (fst (approxToken h (includeSeconds options) (min a b) (max a b)))
            (snd (approxToken h (includeSeconds options) (min a b) (max a b)))
            \<lparr>lo_addSuffix = addSuffix options, lo_comparison = compareAsc a b\<rparr>
      | _ \<Rightarrow> Inl RangeError)"
proof (cases "toDate h laterDate")
  case None
  then show ?thesis by (simp add: formatDistance_def)
next
  case (Some a)
  note A = this
  show ?thesis
  proof (cases "toDate h earlierDate")
    case None
    with A show ?thesis by (simp add: formatDistance_def)
  next
    case (Some b)
    show ?thesis
    proof (cases "a > b")
      case True
      then have m: "min a b = b" "max a b = a" by simp_all
      from True A Some show ?thesis
        unfolding formatDistance_def approxToken_def m
        by (simp add: compareAsc_pos Let_def minutesInDay_def minutesInMonth_def)
    next
      case False
      then have m: "min a b = a" "max a b = b" by simp_all
      from False A Some show ?thesis
        unfolding formatDistance_def approxToken_def m
        by (simp add: compareAsc_pos Let_def minutesInDay_def minutesInMonth_def)
    qed
  qed
qed


lemma strict_chain:
  "(if u = Second then f XSeconds s
    else if u = Minute then f XMinutes m
    else if u = Hour then f XHours hh
    else if u = Day then f XDays d
    else if u = Month then (if mo = 12 \<and> du \<noteq> Some Month then f XYears 1 else f XMonths mo)
    else f XYears y)
   = f (fst (case u of Second \<Rightarrow> (XSeconds, s) | Minute \<Rightarrow> (XMinutes, m)
             | Hour \<Rightarrow> (XHours, hh) | Day \<Rightarrow> (XDays, d)
             | Month \<Rightarrow> (if mo = 12 \<and> du \<noteq> Some Month then (XYears, 1) else (XMonths, mo))
             | Year \<Rightarrow> (XYears, y)))
       (snd (case u of Second \<Rightarrow> (XSeconds, s) | Minute \<Rightarrow> (XMinutes, m)
             | Hour \<Rightarrow> (XHours, hh) | Day \<Rightarrow> (XDays, d)
             | Month \<Rightarrow> (if mo = 12 \<and> du \<noteq> Some Month then (XYears, 1) else (XMonths, mo))
             | Year \<Rightarrow> (XYears, y)))"
  by (cases u) simp_all

lemma formatDistanceStrict_valid:
  assumes "toDate h laterDate = Some a" and "toDate h earlierDate = Some b"
  shows "formatDistanceStrict h laterDate earlierDate options =
     callFormatDistance (optionsLocale options)
       (fst (strictToken h (unit options) (roundingMethod options) (min a b) (max a b)))
       (snd (strictToken h (unit options) (roundingMethod options) (min a b) (max a b)))
       \<lparr>lo_addSuffix = addSuffix options, lo_comparison = compareAsc a b\<rparr>"
proof (cases "a > b")
  case True
  then have m: "min a b = b" "max a b = a" by simp_all
  from True show ?thesis
    unfolding formatDistanceStrict_def strictToken_def m
    by (simp only: assms prod.case option.case compareAsc_pos if_True Let_def
        strict_chain minutesInDay_def minutesInMonth_def minutesInYear_def
        millisecondsInMinute_def of_int_numeral)
next
  case False
  then have m: "min a b = a" "max a b = b" by simp_all
  from False show ?thesis
    unfolding formatDistanceStrict_def strictToken_def m
    by (simp only: assms prod.case option.case compareAsc_pos if_False Let_def
        strict_chain minutesInDay_def minutesInMonth_def minutesInYear_def
        millisecondsInMinute_def of_int_numeral)
qed

lemma formatDistanceStrict_token:
  "formatDistanceStrict h laterDate earlierDate options =
     (case (toDate h laterDate, toDate h earlierDate) of
        (Some a, Some b) \<Rightarrow>
          callFormatDistance (optionsLocale options)
            (fst (strictToken h (unit options) (roundingMethod options) (min a b) (max a b)))
            (snd (strictToken h (unit options) (roundingMethod options) (min a b) (max a b)))
            \<lparr>lo_addSuffix = addSuffix options, lo_comparison = compareAsc a b\<rparr>
      | _ \<Rightarrow> Inl RangeError)"
proof (cases "toDate h laterDate")
  case None
  then show ?thesis by (simp add: formatDistanceStrict_def)
next
  case (Some a)
  note A = this
  show ?thesis
  proof (cases "toDate h earlierDate")
    case None
    with A show ?thesis by (simp add: formatDistanceStrict_def)
  next
    case (Some b)
    show ?thesis
      using A Some
      by (simp only: formatDistanceStrict_valid [OF A Some] prod.case option.case)
  qed
qed

lemma callFormatDistance_no_RangeError:
  "callFormatDistance loc tok count lo \<noteq> Inl RangeError"
  by (simp add: callFormatDistance_def Let_def split: js_value.splits option.splits)

lemma approxToken_ladder:
  assumes "0 \<le> roundedMinutes h a b" and "roundedMinutes h a b < 86400"
  shows "approxToken h False (min a b) (max a b) = ladder (roundedMinutes h a b)"
proof -
  define m where "m = roundedMinutes h a b"
  have t: "approxToken h False (min a b) (max a b) =
      (if m < 2 then (if m = 0 then (LessThanXMinutes, 1) else (XMinutes, m))
       else if m < 45 then (XMinutes, m)
       else if m < 90 then (AboutXHours, 1)
       else if m < 1440 then (AboutXHours, Math_round (real_of_int m / 60))
       else if m < 2520 then (XDays, 1)
       else if m < 43200 then (XDays, Math_round (real_of_int m / 1440))
       else if m < 86400 then (AboutXMonths, Math_round (real_of_int m / 43200))
       else
         (let months = differenceInMonths h (max a b) (min a b)
          in if months < 12 then (XMonths, Math_round (real_of_int m / 43200))
             else if months mod 12 < 3 then (AboutXYears, Math_trunc (real_of_int months / 12))
             else if months mod 12 < 9 then (OverXYears, Math_trunc (real_of_int months / 12))
             else (AlmostXYears, Math_trunc (real_of_int months / 12) + 1)))"
    unfolding m_def roundedMinutes_def approxToken_def
    by (simp only: Let_def if_False)
  from assms have "0 \<le> m" "m < 86400" by (simp_all add: m_def)
  then show ?thesis
    unfolding t m_def [symmetric] ladder_def by auto
qed

lemma roundedMinutes_same_offset:
  assumes "getTimezoneOffsetInMilliseconds h a = getTimezoneOffsetInMilliseconds h b"
  shows "roundedMinutes h a b =
    Math_round (real_of_int (Math_trunc (real_of_int (doubleOfInt \<bar>a - b\<bar>) / 1000)) / 60)"
proof (cases "a \<le> b")
  case True
  then have "min a b = a" "max a b = b" "\<bar>a - b\<bar> = b - a" by simp_all
  with assms show ?thesis
    by (simp add: roundedMinutes_def differenceInSeconds_def differenceInMilliseconds_def
        getRoundingMethod_def Let_def)
next
  case False
  then have "min a b = b" "max a b = a" "\<bar>a - b\<bar> = a - b" by simp_all
  with assms show ?thesis
    by (simp add: roundedMinutes_def differenceInSeconds_def differenceInMilliseconds_def
        getRoundingMethod_def Let_def)
qed

lemma callFormatDistance_default:
  "callFormatDistance JSNull tok count lo = Inr (formatDistance1 tok count lo)"
  by (simp add: callFormatDistance_def enUS_def)

lemmas calendar_defs =
  msPerDay_def era_def eraDay_def yearOfEra_def dayOfYear_def monthOfDay_def dateOfDay_def
  MonthFromTime_def DateFromTime_def YearFromTime_def TimeWithinDay_def MakeTime_def
  marchYear_def marchMonth_def DayFromYearMonth_def MakeDay_def MakeDate_def
  LocalTime_def UTC_def

lemma not_a_date: "parseDateTimeString ''not-a-date'' = None"
  by (simp add: parseDateTimeString_def)

lemma utc_offsets:
  "getTimezoneOffsetInMilliseconds utcHost 0 = 0"
  "getTimezoneOffsetInMilliseconds utcHost 29000 = 0"
  "getTimezoneOffsetInMilliseconds utcHost 30000 = 0"
  "getTimezoneOffsetInMilliseconds utcHost 60000 = 0"
  "getTimezoneOffsetInMilliseconds utcHost 7200000 = 0"
  "getTimezoneOffsetInMilliseconds utcHost 31104000000 = 0"
  "getTimezoneOffsetInMilliseconds utcHost (- 8640000000000000) = 0"
  "getTimezoneOffsetInMilliseconds utcHost 820815767999999 = 0"
  unfolding utcHost_def
  by (simp_all only: getTimezoneOffsetInMilliseconds_def zoneHost_def host.simps Let_def)
    (simp_all add: calendar_defs)





lemma getRoundingMethod_default:
  "getRoundingMethod (Some (case method of None \<Rightarrow> Round | Some m \<Rightarrow> m)) x
     = roundingOrDefault method x"
  by (simp add: getRoundingMethod_def roundingOrDefault_def
      split: option.splits rounding_method.splits)

lemma abs_max_min: "max a b - min a b = \<bar>a - (b::int)\<bar>"
  by (simp add: max_def min_def)

lemma strictToken_unfold:
  "strictToken h defaultUnit method (min a b) (max a b) =
     (case (case defaultUnit of None \<Rightarrow> autoUnit h a b | Some u \<Rightarrow> u) of
        Second \<Rightarrow> (XSeconds, roundingOrDefault method (rawMinutes a b * 60))
      | Minute \<Rightarrow> (XMinutes, roundingOrDefault method (rawMinutes a b))
      | Hour \<Rightarrow> (XHours, roundingOrDefault method (rawMinutes a b / 60))
      | Day \<Rightarrow> (XDays, roundingOrDefault method (dstMinutes h a b / 1440))
      | Month \<Rightarrow>
          (if roundingOrDefault method (dstMinutes h a b / 43200) = 12
              \<and> defaultUnit \<noteq> Some Month then (XYears, 1)
           else (XMonths, roundingOrDefault method (dstMinutes h a b / 43200)))
      | Year \<Rightarrow> (XYears, roundingOrDefault method (dstMinutes h a b / 525600)))"
proof -
  have s: "real_of_int (doubleOfInt \<bar>a - b\<bar>) / 1000 = rawMinutes a b * 60"
    by (simp add: rawMinutes_def)
  show ?thesis
    unfolding strictToken_def
    by (simp only: Let_def getRoundingMethod_default abs_max_min s
        rawMinutes_def [symmetric] dstMinutes_def [symmetric] autoUnit_def [symmetric])
qed

text \<open>
  C3. \<open>formatDistance\<close> and \<open>formatDistanceStrict\<close> raise the RangeError "Invalid time
  value", instead of returning a string, exactly when one of the two dates is invalid;
  for two valid dates that error is never raised. A number is an invalid date exactly
  when it is NaN or more than 8.64e15 milliseconds from the epoch, and a string exactly
  when the host's parser gives no time value in that range for it, as for text it does
  not recognise.
\<close>

theorem invalid_input_error:
  "(formatDistance h laterDate earlierDate options = Inl RangeError
      \<longleftrightarrow> toDate h laterDate = None \<or> toDate h earlierDate = None)
   \<and> (formatDistanceStrict h laterDate earlierDate options = Inl RangeError
      \<longleftrightarrow> toDate h laterDate = None \<or> toDate h earlierDate = None)
   \<and> toDate h (ANumber None) = None
   \<and> (toDate h (ANumber (Some v)) = None \<longleftrightarrow> 8640000000000000 < \<bar>v\<bar>)
   \<and> (toDate h (ADate (Some v)) = None \<longleftrightarrow> 8640000000000000 < \<bar>v\<bar>)
   \<and> (toDate h (AString s) = None \<longleftrightarrow>
        (case Date_parse h s of None \<Rightarrow> True | Some t \<Rightarrow> 8640000000000000 < \<bar>t\<bar>))"
proof -
  have 1: "formatDistance h laterDate earlierDate options = Inl RangeError
      \<longleftrightarrow> toDate h laterDate = None \<or> toDate h earlierDate = None"
    by (simp add: formatDistance_token callFormatDistance_no_RangeError split: option.splits)
  have 2: "formatDistanceStrict h laterDate earlierDate options = Inl RangeError
      \<longleftrightarrow> toDate h laterDate = None \<or> toDate h earlierDate = None"
    by (simp add: formatDistanceStrict_token callFormatDistance_no_RangeError
        split: option.splits)
  have 3: "TimeClip (Some x) = None \<longleftrightarrow> 8640000000000000 < \<bar>x\<bar>" for x
    by (simp add: TimeClip_def)
  have 4: "toDate h (AString s) = None \<longleftrightarrow>
      (case Date_parse h s of None \<Rightarrow> True | Some t \<Rightarrow> 8640000000000000 < \<bar>t\<bar>)"
    by (simp add: TimeClip_def split: option.splits)
  show ?thesis
    using 1 2 4 by (simp add: 3)
qed

theorem invalid_input_error_witness:
  "formatDistance utcHost (ANumber (Some 8640000000000001)) (ADate (Some 0))
     \<lparr>addSuffix = False, includeSeconds = False, unit = None, roundingMethod = None,
        optionsLocale = JSNull\<rparr> = Inl RangeError
   \<and> formatDistanceStrict utcHost (ADate (Some 0)) (AString ''not-a-date'')
     \<lparr>addSuffix = False, includeSeconds = False, unit = None, roundingMethod = None,
        optionsLocale = JSNull\<rparr> = Inl RangeError
   \<and> formatDistance utcHost (ANumber (Some 8640000000000000)) (ADate (Some (- 8640000000000000)))
     \<lparr>addSuffix = False, includeSeconds = False, unit = None, roundingMethod = None,
        optionsLocale = JSNull\<rparr> \<noteq> Inl RangeError"
proof -
  have p: "Date_parse utcHost ''not-a-date'' = None"
    by (simp add: utcHost_def zoneHost_def not_a_date)
  show ?thesis
    using invalid_input_error [of utcHost "ANumber (Some 8640000000000001)" "ADate (Some 0)"
        "\<lparr>addSuffix = False, includeSeconds = False, unit = None, roundingMethod = None,
           optionsLocale = JSNull\<rparr>" 8640000000000001 "''not-a-date''"]
      invalid_input_error [of utcHost "ADate (Some 0)" "AString ''not-a-date''"
        "\<lparr>addSuffix = False, includeSeconds = False, unit = None, roundingMethod = None,
           optionsLocale = JSNull\<rparr>" 0 "''not-a-date''"]
      invalid_input_error [of utcHost "ANumber (Some 8640000000000000)"
        "ADate (Some (- 8640000000000000))"
        "\<lparr>addSuffix = False, includeSeconds = False, unit = None, roundingMethod = None,
           optionsLocale = JSNull\<rparr>" 8640000000000000 "''not-a-date''"]
    by (simp add: p)
qed


lemma formatDistance1_twelve:
  "formatDistance1 XYears 1 \<lparr>lo_addSuffix = False, lo_comparison = c\<rparr> = ''1 year''"
  "formatDistance1 XMonths 12 \<lparr>lo_addSuffix = False, lo_comparison = c\<rparr> = ''12 months''"
  by (simp_all add: formatDistance1_def toString_def digits.simps)

lemma auto_month_utc:
  "rawMinutes 0 31104000000 = 518400"
  "dstMinutes utcHost 0 31104000000 = 518400"
  "autoUnit utcHost 0 31104000000 = Month"
  by (simp_all add: autoUnit_def rawMinutes_def dstMinutes_def utc_offsets)



text \<open>
  C5. In strict mode, when the month count rounds to exactly 12: if the month was
  auto-selected the result is the token for one year, "1 year" in English, and if
  \<open>unit: "month"\<close> was forced it is the token for twelve months, "12 months".
\<close>

theorem twelve_months:
  assumes "toDate h laterDate = Some a" and "toDate h earlierDate = Some b"
    and "roundingOrDefault (roundingMethod options) (dstMinutes h a b / 43200) = 12"
  shows "(unit options = None \<and> autoUnit h a b = Month \<longrightarrow>
            formatDistanceStrict h laterDate earlierDate options =
              callFormatDistance (optionsLocale options) XYears 1
                \<lparr>lo_addSuffix = addSuffix options, lo_comparison = compareAsc a b\<rparr>)
       \<and> (unit options = Some Month \<longrightarrow>
            formatDistanceStrict h laterDate earlierDate options =
              callFormatDistance (optionsLocale options) XMonths 12
                \<lparr>lo_addSuffix = addSuffix options, lo_comparison = compareAsc a b\<rparr>)
       \<and> (unit options = None \<and> autoUnit h a b = Month
            \<and> optionsLocale options = JSNull \<and> \<not> addSuffix options \<longrightarrow>
            formatDistanceStrict h laterDate earlierDate options = Inr ''1 year'')
       \<and> (unit options = Some Month \<and> optionsLocale options = JSNull \<and> \<not> addSuffix options \<longrightarrow>
            formatDistanceStrict h laterDate earlierDate options = Inr ''12 months'')"
  using assms
  by (simp add: formatDistanceStrict_token strictToken_unfold callFormatDistance_default
      formatDistance1_twelve)

theorem twelve_months_witness:
  "formatDistanceStrict utcHost (ADate (Some 0)) (ADate (Some 31104000000))
     \<lparr>addSuffix = False, includeSeconds = False, unit = None, roundingMethod = None,
        optionsLocale = JSNull\<rparr> = Inr ''1 year''
   \<and> formatDistanceStrict utcHost (ADate (Some 0)) (ADate (Some 31104000000))
     \<lparr>addSuffix = False, includeSeconds = False, unit = Some Month, roundingMethod = None,
        optionsLocale = JSNull\<rparr> = Inr ''12 months''"
proof -
  have r: "roundingOrDefault None (dstMinutes utcHost 0 31104000000 / 43200) = 12"
    by (simp add: auto_month_utc roundingOrDefault_def Math_round_def)
  show ?thesis
    using twelve_months [of utcHost "ADate (Some 0)" 0 "ADate (Some 31104000000)" 31104000000
        "\<lparr>addSuffix = False, includeSeconds = False, unit = None, roundingMethod = None,
           optionsLocale = JSNull\<rparr>"]
      twelve_months [of utcHost "ADate (Some 0)" 0 "ADate (Some 31104000000)" 31104000000
        "\<lparr>addSuffix = False, includeSeconds = False, unit = Some Month, roundingMethod = None,
           optionsLocale = JSNull\<rparr>"]
    by (simp add: r auto_month_utc(3) callFormatDistance_default formatDistance1_twelve)
qed

lemma formatDistance1_suffix:
  "formatDistance1 tok count \<lparr>lo_addSuffix = True, lo_comparison = c\<rparr> =
     (if c > 0 then ''in '' @ formatDistance1 tok count \<lparr>lo_addSuffix = False, lo_comparison = 0\<rparr>
      else formatDistance1 tok count \<lparr>lo_addSuffix = False, lo_comparison = 0\<rparr> @ '' ago'')"
  "formatDistance1 tok count \<lparr>lo_addSuffix = False, lo_comparison = c\<rparr> =
     formatDistance1 tok count \<lparr>lo_addSuffix = False, lo_comparison = 0\<rparr>"
  by (simp_all add: formatDistance1_def Let_def)

text \<open>
  C4 (amended). With the English locale the two orders of a pair of valid dates give the
  same text \<open>X\<close> without suffix; with \<open>addSuffix\<close> the text is "in X" when the first
  argument is later than the second (the sign of the comparison is positive) and "X ago"
  otherwise. So for \<open>a\<close> later than \<open>b\<close>, formatting \<open>(a, b)\<close> gives "in X" and
  formatting \<open>(b, a)\<close> gives "X ago".
\<close>

theorem suffix_direction:
  assumes "toDate h x = Some a" and "toDate h y = Some b"
    and "optionsLocale options = JSNull"
  shows "\<exists>X. formatDistance h x y (options\<lparr>addSuffix := False\<rparr>) = Inr X
           \<and> formatDistance h y x (options\<lparr>addSuffix := False\<rparr>) = Inr X
           \<and> formatDistance h x y (options\<lparr>addSuffix := True\<rparr>) =
               Inr (if compareAsc a b > 0 then ''in '' @ X else X @ '' ago'')
           \<and> (b < a \<longrightarrow>
                formatDistance h x y (options\<lparr>addSuffix := True\<rparr>) = Inr (''in '' @ X)
                \<and> formatDistance h y x (options\<lparr>addSuffix := True\<rparr>) = Inr (X @ '' ago''))"
proof -
  define tk where "tk = approxToken h (includeSeconds options) (min a b) (max a b)"
  define X where "X = formatDistance1 (fst tk) (snd tk) \<lparr>lo_addSuffix = False, lo_comparison = 0\<rparr>"
  have sym: "approxToken h (includeSeconds options) (min b a) (max b a) = tk"
    by (simp add: tk_def min.commute max.commute)
  have 1: "formatDistance h x y (options\<lparr>addSuffix := False\<rparr>) = Inr X"
    using assms by (simp add: formatDistance_token callFormatDistance_default
        tk_def [symmetric] X_def formatDistance1_suffix(2) [of _ _ "compareAsc a b"])
  have 2: "formatDistance h y x (options\<lparr>addSuffix := False\<rparr>) = Inr X"
    using assms by (simp add: formatDistance_token callFormatDistance_default
        sym X_def formatDistance1_suffix(2) [of _ _ "compareAsc b a"])
  have 3: "formatDistance h x y (options\<lparr>addSuffix := True\<rparr>) =
      Inr (if compareAsc a b > 0 then ''in '' @ X else X @ '' ago'')"
    using assms by (simp add: formatDistance_token callFormatDistance_default
        tk_def [symmetric] X_def formatDistance1_suffix(1))
  have 4: "formatDistance h y x (options\<lparr>addSuffix := True\<rparr>) =
      Inr (if compareAsc b a > 0 then ''in '' @ X else X @ '' ago'')"
    using assms by (simp add: formatDistance_token callFormatDistance_default
        sym X_def formatDistance1_suffix(1))
  show ?thesis
    using 1 2 3 4 by (intro exI [of _ X]) (simp add: compareAsc_pos)
qed

theorem suffix_direction_witness:
  "\<exists>X. formatDistance utcHost (ADate (Some 60000)) (ADate (Some 0))
          \<lparr>addSuffix = True, includeSeconds = False, unit = None, roundingMethod = None,
             optionsLocale = JSNull\<rparr> = Inr (''in '' @ X)
      \<and> formatDistance utcHost (ADate (Some 0)) (ADate (Some 60000))
          \<lparr>addSuffix = True, includeSeconds = False, unit = None, roundingMethod = None,
             optionsLocale = JSNull\<rparr> = Inr (X @ '' ago'')"
  using suffix_direction [of utcHost "ADate (Some 60000)" 60000 "ADate (Some 0)" 0
      "\<lparr>addSuffix = True, includeSeconds = False, unit = None, roundingMethod = None,
         optionsLocale = JSNull\<rparr>"]
  by auto

text \<open>
  As C4 is worded, the later date first would give "X ago"; it gives "in X".
\<close>

theorem suffix_direction_counterexample:
  "(0 :: int) < 60000
   \<and> formatDistance utcHost (ADate (Some 60000)) (ADate (Some 0))
       \<lparr>addSuffix = True, includeSeconds = False, unit = None, roundingMethod = None,
          optionsLocale = JSNull\<rparr> = Inr ''in 1 minute''
   \<and> formatDistance utcHost (ADate (Some 0)) (ADate (Some 60000))
       \<lparr>addSuffix = True, includeSeconds = False, unit = None, roundingMethod = None,
          optionsLocale = JSNull\<rparr> = Inr ''1 minute ago''"
proof -
  have r: "roundedMinutes utcHost 60000 0 = 1" "roundedMinutes utcHost 0 60000 = 1"
    by (simp_all add: roundedMinutes_same_offset utc_offsets Math_trunc_def Math_round_def)
  have "approxToken utcHost False (min 60000 0) (max 60000 0) = (XMinutes, 1)"
    using approxToken_ladder [of utcHost 60000 0] by (simp add: r ladder_def)
  then show ?thesis
    by (simp add: formatDistance_token callFormatDistance_default formatDistance1_def
        compareAsc_def)
qed

section \<open>Properties of the controller\<close>

lemma formatLabel_invalid:
  "toDate h date = None \<Longrightarrow> formatLabel h modifiers loc now date = Inl RangeError"
  by (simp add: formatLabel_def formatDistanceToNow_def formatDistanceToNowStrict_def
      formatDistance_token formatDistanceStrict_token)

lemma render_calls:
  "calls (render h modifiers now date w) =
     calls w @ [renderCall h modifiers (moduleLocale w) now date]"
  by (simp add: render_def renderCall_def split: sum.splits)

lemma render_keeps:
  "timers (render h modifiers now date w) = timers w"
  "interval (render h modifiers now date w) = interval w"
  "nextTimer (render h modifiers now date w) = nextTimer w"
  "moduleLocale (render h modifiers now date w) = moduleLocale w"
  by (simp_all add: render_def split: sum.splits)

lemma render_invalid:
  "toDate h date = None \<Longrightarrow>
     render h modifiers now date w =
       w\<lparr>console := console w @ [RangeError], calls := calls w @ [ConsoleError RangeError]\<rparr>"
  by (simp add: render_def formatLabel_invalid)

text \<open>
  C6. A render on an invalid date catches the formatter's RangeError, logs it with
  \<open>console.error\<close> and changes nothing else: the element's text stays as it was and
  the timers stay live. The same holds of a tick of a timer that captured an invalid date,
  after which that timer is still live.
\<close>

theorem render_invalid_date:
  assumes "toDate h date = None"
  shows "render h modifiers now date w =
           w\<lparr>console := console w @ [RangeError], calls := calls w @ [ConsoleError RangeError]\<rparr>
       \<and> textContent (render h modifiers now date w) = textContent w
       \<and> timers (render h modifiers now date w) = timers w
       \<and> (timers w tid = Some (date, period) \<longrightarrow>
            tick h modifiers now tid w =
              w\<lparr>console := console w @ [RangeError],
                 calls := calls w @ [ConsoleError RangeError]\<rparr>
            \<and> timers (tick h modifiers now tid w) tid = Some (date, period))"
  using assms by (simp add: render_invalid tick_def)

theorem render_invalid_date_witness:
  "textContent (tick utcHost [] 60000 1
      ((attached JSNull ''5 minutes ago'')
         \<lparr>interval := Some 1, timers := [1 \<mapsto> (ADate None, 30000)], nextTimer := 1\<rparr>))
     = ''5 minutes ago''
   \<and> console (tick utcHost [] 60000 1
      ((attached JSNull ''5 minutes ago'')
         \<lparr>interval := Some 1, timers := [1 \<mapsto> (ADate None, 30000)], nextTimer := 1\<rparr>))
     = [RangeError]
   \<and> timers (tick utcHost [] 60000 1
      ((attached JSNull ''5 minutes ago'')
         \<lparr>interval := Some 1, timers := [1 \<mapsto> (ADate None, 30000)], nextTimer := 1\<rparr>)) 1
     = Some (ADate None, 30000)"
  using render_invalid_date [of utcHost "ADate None" "[]" 60000
      "(attached JSNull ''5 minutes ago'')
         \<lparr>interval := Some 1, timers := [1 \<mapsto> (ADate None, 30000)], nextTimer := 1\<rparr>"
      1 30000]
  by (simp add: attached_def)

lemma invariant_attached: "invariant (attached loc text)"
  by (simp add: invariant_def attached_def)

lemma effect_timers:
  assumes "invariant w"
  shows "timers (effect h parseISO modifiers now date w) =
           [Suc (nextTimer w) \<mapsto> (resolved parseISO date, intervalDuration modifiers)]"
    and "interval (effect h parseISO modifiers now date w) = Some (Suc (nextTimer w))"
    and "nextTimer (effect h parseISO modifiers now date w) = Suc (nextTimer w)"
proof -
  have empty: "timers (if truthy (interval w) then clearInterval (interval w) w else w)
      = Map.empty"
  proof (cases "interval w")
    case None
    with assms have "dom (timers w) = {}" by (auto simp: invariant_def)
    with None show ?thesis by (simp add: truthy_def)
  next
    case (Some old)
    with assms have "dom (timers w) \<subseteq> {old}" "0 < old" by (auto simp: invariant_def)
    then have "(timers w)(old := None) = Map.empty"
      by (fastforce simp: fun_eq_iff dom_def)
    with Some \<open>0 < old\<close> show ?thesis by (simp add: truthy_def clearInterval_def)
  qed
  have nxt: "nextTimer (if truthy (interval w) then clearInterval (interval w) w else w)
      = nextTimer w"
    by (simp add: clearInterval_def split: option.splits)
  show "timers (effect h parseISO modifiers now date w) =
           [Suc (nextTimer w) \<mapsto> (resolved parseISO date, intervalDuration modifiers)]"
    unfolding effect_def resolved_def [symmetric]
    by (simp only: Let_def setInterval_def prod.case render_keeps empty nxt) simp
  show "interval (effect h parseISO modifiers now date w) = Some (Suc (nextTimer w))"
    unfolding effect_def resolved_def [symmetric]
    by (simp only: Let_def setInterval_def prod.case render_keeps empty nxt) simp
  show "nextTimer (effect h parseISO modifiers now date w) = Suc (nextTimer w)"
    unfolding effect_def resolved_def [symmetric]
    by (simp only: Let_def setInterval_def prod.case render_keeps empty nxt) simp
qed

lemma invariant_step:
  assumes "invariant w"
  shows "invariant (step h parseISO modifiers w e)"
proof (cases e)
  case (Effect now date)
  then show ?thesis
    using effect_timers [OF assms, of h parseISO modifiers now date]
    by (simp add: invariant_def)
next
  case (Tick now tid)
  then show ?thesis
    using assms by (simp add: invariant_def tick_def render_keeps split: option.splits)
next
  case Cleanup
  then show ?thesis
    using assms
    by (fastforce simp: invariant_def cleanup_def clearInterval_def dom_def
        split: option.splits if_splits)
qed

lemma invariant_run:
  "invariant w \<Longrightarrow> invariant (run h parseISO modifiers w events)"
  unfolding run_def
  by (induction events arbitrary: w) (simp_all add: invariant_step)

lemma effect_calls:
  assumes "invariant w"
  shows "calls (effect h parseISO modifiers now date w) =
           calls w
           @ (case interval w of None \<Rightarrow> [] | Some old \<Rightarrow> [ClearInterval (Some old)])
           @ [renderCall h modifiers (moduleLocale w) now (resolved parseISO date),
              SetInterval (Suc (nextTimer w)) (intervalDuration modifiers)]"
proof (cases "interval w")
  case None
  then show ?thesis
    unfolding effect_def resolved_def [symmetric]
    by (simp add: truthy_def Let_def setInterval_def render_calls render_keeps)
next
  case (Some old)
  with assms have "0 < old" by (simp add: invariant_def)
  with Some show ?thesis
    unfolding effect_def resolved_def [symmetric]
    by (simp add: truthy_def Let_def setInterval_def render_calls render_keeps
        clearInterval_def)
qed


lemma invariant_card: "invariant w \<Longrightarrow> card (dom (timers w)) \<le> 1"
proof -
  assume "invariant w"
  then have "dom (timers w) \<subseteq> (case interval w of None \<Rightarrow> {} | Some tid \<Rightarrow> {tid})"
    by (fastforce simp: invariant_def dom_def split: option.splits)
  moreover have "finite (case interval w of None \<Rightarrow> {} | Some tid \<Rightarrow> {tid})"
    and "card (case interval w of None \<Rightarrow> {} | Some tid \<Rightarrow> {tid}) \<le> 1"
    by (simp_all split: option.splits)
  ultimately show ?thesis
    by (meson card_mono le_trans)
qed

lemma effect_invalid:
  assumes "toDate h (resolved parseISO date) = None"
  shows "console (effect h parseISO modifiers now date w) = console w @ [RangeError]"
    and "textContent (effect h parseISO modifiers now date w) = textContent w"
  using assms unfolding effect_def resolved_def [symmetric]
  by (simp_all add: Let_def setInterval_def render_invalid clearInterval_def
      split: option.splits)

text \<open>
  C7. In every state a binding reaches, a re-evaluation of the bound expression makes its
  host calls in this order: it clears the pending timer, if any, renders the resolved
  value (a string parsed by \<open>parseISO\<close>), and arms a new timer whose period is 30000 ms,
  or 5000 ms with the modifier \<open>seconds\<close>. Afterwards that timer, bound to the new
  value, is the only live one, so a tick of any other timer does nothing; and at most one
  timer is live in every reachable state. When the string does not parse, the render logs
  the RangeError and leaves the text as it was, and the timer is armed all the same.
\<close>

theorem effect_cycle:
  assumes "w = run h parseISO modifiers (attached loc text) events"
  shows "calls (effect h parseISO modifiers now date w) =
           calls w
           @ (case interval w of None \<Rightarrow> [] | Some old \<Rightarrow> [ClearInterval (Some old)])
           @ [renderCall h modifiers (moduleLocale w) now (resolved parseISO date),
              SetInterval (Suc (nextTimer w))
                (if ''seconds'' \<in> set modifiers then 5000 else 30000)]
       \<and> timers (effect h parseISO modifiers now date w) =
           [Suc (nextTimer w) \<mapsto>
              (resolved parseISO date, if ''seconds'' \<in> set modifiers then 5000 else 30000)]
       \<and> (tid \<noteq> Suc (nextTimer w) \<longrightarrow>
            tick h modifiers now' tid (effect h parseISO modifiers now date w) =
              effect h parseISO modifiers now date w)
       \<and> card (dom (timers w)) \<le> 1
       \<and> (date = AString s \<and> parseISO s = None \<longrightarrow>
            console (effect h parseISO modifiers now date w) = console w @ [RangeError]
            \<and> textContent (effect h parseISO modifiers now date w) = textContent w)"
proof -
  have inv: "invariant w"
    unfolding assms by (rule invariant_run [OF invariant_attached])
  have 1: "calls (effect h parseISO modifiers now date w) =
           calls w
           @ (case interval w of None \<Rightarrow> [] | Some old \<Rightarrow> [ClearInterval (Some old)])
           @ [renderCall h modifiers (moduleLocale w) now (resolved parseISO date),
              SetInterval (Suc (nextTimer w))
                (if ''seconds'' \<in> set modifiers then 5000 else 30000)]"
    using effect_calls [OF inv, of h parseISO modifiers now date]
    by (simp add: intervalDuration_def)
  have 2: "timers (effect h parseISO modifiers now date w) =
           [Suc (nextTimer w) \<mapsto>
              (resolved parseISO date, if ''seconds'' \<in> set modifiers then 5000 else 30000)]"
    using effect_timers(1) [OF inv, of h parseISO modifiers now date]
    by (simp add: intervalDuration_def)
  have 3: "tid \<noteq> Suc (nextTimer w) \<longrightarrow>
            tick h modifiers now' tid (effect h parseISO modifiers now date w) =
              effect h parseISO modifiers now date w"
    by (simp add: tick_def 2)
  have 4: "date = AString s \<and> parseISO s = None \<longrightarrow>
            console (effect h parseISO modifiers now date w) = console w @ [RangeError]
            \<and> textContent (effect h parseISO modifiers now date w) = textContent w"
    using effect_invalid [of h parseISO "AString s" modifiers now w]
    by (simp add: resolved_def)
  from 1 2 3 4 invariant_card [OF inv] show ?thesis
    by blast
qed

theorem effect_cycle_witness:
  "timers (effect utcHost parseDateTimeString [''seconds''] 120000 (AString ''not-a-date'')
             (run utcHost parseDateTimeString [''seconds''] (attached JSNull ''soon'')
                [Effect 60000 (ADate (Some 0))]))
     = [2 \<mapsto> (ADate None, 5000)]
   \<and> console (effect utcHost parseDateTimeString [''seconds''] 120000 (AString ''not-a-date'')
             (run utcHost parseDateTimeString [''seconds''] (attached JSNull ''soon'')
                [Effect 60000 (ADate (Some 0))]))
     = console (run utcHost parseDateTimeString [''seconds''] (attached JSNull ''soon'')
                [Effect 60000 (ADate (Some 0))]) @ [RangeError]"
proof -
  have n: "nextTimer (run utcHost parseDateTimeString [''seconds''] (attached JSNull ''soon'')
                [Effect 60000 (ADate (Some 0))]) = 1"
    using effect_timers(3) [OF invariant_attached, of utcHost parseDateTimeString
        "[''seconds'']" 60000 "ADate (Some 0)" JSNull "''soon''"]
    by (simp add: run_def attached_def)
  note c = effect_cycle [of _ utcHost parseDateTimeString "[''seconds'']" JSNull "''soon''"
        "[Effect 60000 (ADate (Some 0))]" 120000 "AString ''not-a-date''" 0 0 "''not-a-date''",
        OF refl]
  have "timers (effect utcHost parseDateTimeString [''seconds''] 120000 (AString ''not-a-date'')
             (run utcHost parseDateTimeString [''seconds''] (attached JSNull ''soon'')
                [Effect 60000 (ADate (Some 0))]))
     = [2 \<mapsto> (ADate None, 5000)]"
    using c [THEN conjunct2, THEN conjunct1]
    by (simp add: n not_a_date resolved_def numeral_2_eq_2)
  moreover have "console (effect utcHost parseDateTimeString [''seconds''] 120000
             (AString ''not-a-date'')
             (run utcHost parseDateTimeString [''seconds''] (attached JSNull ''soon'')
                [Effect 60000 (ADate (Some 0))]))
     = console (run utcHost parseDateTimeString [''seconds''] (attached JSNull ''soon'')
                [Effect 60000 (ADate (Some 0))]) @ [RangeError]"
    using c [THEN conjunct2, THEN conjunct2, THEN conjunct2, THEN conjunct2]
    by (simp add: not_a_date)
  ultimately show ?thesis
    by simp
qed

text \<open>
  C8 (amended). In the JavaScript variants \<open>configure\<close> keeps the previous locale when
  the supplied locale object lacks a \<open>formatDistance\<close> entry; the TypeScript variants
  have no such check and take any truthy value as the new locale. In both, a locale object
  with a \<open>formatDistance\<close> entry replaces the module's locale wholesale, a
  configuration without a locale changes nothing, and the call returns the plugin function
  (in the JavaScript variants, whenever the supplied locale is not \<open>null\<close>).
\<close>

theorem configure_locale:
  "(config_locale cfg = Some (JSObject obj) \<and> formatDistance_entry obj = None \<longrightarrow>
      configure_js cfg w = Inr (TimeAgo, w))
   \<and> (config_locale cfg = Some (JSObject obj) \<and> formatDistance_entry obj \<noteq> None \<longrightarrow>
      configure_js cfg w = Inr (TimeAgo, w\<lparr>moduleLocale := JSObject obj\<rparr>)
      \<and> configure cfg w = (TimeAgo, w\<lparr>moduleLocale := JSObject obj\<rparr>))
   \<and> (config_locale cfg = Some v \<and> truthyValue v \<longrightarrow>
      configure cfg w = (TimeAgo, w\<lparr>moduleLocale := v\<rparr>))
   \<and> (config_locale cfg = None \<longrightarrow>
      configure cfg w = (TimeAgo, w) \<and> configure_js cfg w = Inr (TimeAgo, w))
   \<and> fst (configure cfg w) = TimeAgo
   \<and> (config_locale cfg \<noteq> Some JSNull \<longrightarrow> (\<exists>w'. configure_js cfg w = Inr (TimeAgo, w')))"
  by (auto simp: configure_def configure_js_def truthyValue_def Let_def
      split: option.splits js_value.splits)

theorem configure_locale_witness:
  "configure_js \<lparr>config_locale = Some (JSObject \<lparr>formatDistance_entry = None\<rparr>)\<rparr>
       (attached JSNull ''soon'') = Inr (TimeAgo, attached JSNull ''soon'')
   \<and> configure_js \<lparr>config_locale = Some (JSObject enUS)\<rparr> (attached JSNull ''soon'')
       = Inr (TimeAgo, (attached JSNull ''soon'')\<lparr>moduleLocale := JSObject enUS\<rparr>)
   \<and> configure \<lparr>config_locale = Some (JSObject enUS)\<rparr> (attached JSNull ''soon'')
       = (TimeAgo, (attached JSNull ''soon'')\<lparr>moduleLocale := JSObject enUS\<rparr>)
   \<and> configure \<lparr>config_locale = None\<rparr> (attached JSNull ''soon'')
       = (TimeAgo, attached JSNull ''soon'')"
  using configure_locale [of "\<lparr>config_locale = Some (JSObject \<lparr>formatDistance_entry = None\<rparr>)\<rparr>"
      "\<lparr>formatDistance_entry = None\<rparr>" "attached JSNull ''soon''" JSNull]
    configure_locale [of "\<lparr>config_locale = Some (JSObject enUS)\<rparr>" enUS
      "attached JSNull ''soon''" "JSObject enUS"]
    configure_locale [of "\<lparr>config_locale = None\<rparr>" enUS "attached JSNull ''soon''" JSNull]
  by (simp add: enUS_def)

text \<open>
  As C8 is worded, a locale object without \<open>formatDistance\<close> would leave the locale as
  it was; the TypeScript variant stores it.
\<close>

theorem configure_locale_counterexample:
  "moduleLocale (attached JSNull ''soon'') = JSNull
   \<and> configure \<lparr>config_locale = Some (JSObject \<lparr>formatDistance_entry = None\<rparr>)\<rparr>
        (attached JSNull ''soon'')
      = (TimeAgo, (attached JSNull ''soon'')
           \<lparr>moduleLocale := JSObject \<lparr>formatDistance_entry = None\<rparr>\<rparr>)"
  by (simp add: configure_def truthyValue_def attached_def)

lemma timeago_error:
  assumes "\<bar>now\<bar> \<le> 8640000000000000"
  shows "timeago h loc now expression pure seconds so = Inl RangeError
     \<longleftrightarrow> toDate h expression = None"
  using assms
  by (simp add: timeago_def formatDistanceToNow_def formatDistanceToNowStrict_def
      constructNow_def formatDistance_token formatDistanceStrict_token
      callFormatDistance_no_RangeError Let_def split: option.splits)

lemma timeago_label:
  assumes "\<bar>now\<bar> \<le> 8640000000000000" and "toDate h expression = Some t"
  shows "\<exists>label. timeago h JSNull now expression pure seconds so = Inr label"
  using assms
  by (simp add: timeago_def formatDistanceToNow_def formatDistanceToNowStrict_def
      constructNow_def formatDistance_token formatDistanceStrict_token
      callFormatDistance_default Let_def split: option.splits)

lemma parse_2015: "parseDateTimeString ''2015-01-01T00:00:00.000Z'' = Some 1420070400000"
  by (simp add: parseDateTimeString_def digitValue_def)
    (simp add: calendar_defs)

lemma utc_offsets_2015:
  "getTimezoneOffsetInMilliseconds utcHost 1420070400000 = 0"
  "getTimezoneOffsetInMilliseconds utcHost 1420074000000 = 0"
  unfolding utcHost_def
  by (simp_all only: getTimezoneOffsetInMilliseconds_def zoneHost_def host.simps Let_def)
    (simp_all add: calendar_defs)

text \<open>
  C10 (the code departs from its documentation). The magic function passes its argument
  to the formatter without \<open>parseISO\<close>, and the formatter converts it with
  \<open>toDate\<close>. The documentation of \<open>toDate\<close> says that an argument that is neither a
  \<open>Date\<close> nor a number gives an Invalid Date, by which every string would raise the
  RangeError, as C10 says. In the code \<open>toDate\<close> hands the string to the \<open>Date\<close>
  constructor: at any valid time of the clock, the magic raises the RangeError only for
  the strings for which the host's parser gives no valid time value; for the others the
  error it raises, if any, is not that one, and with the English locale it returns a
  label.
\<close>

theorem magic_string_argument:
  assumes "\<bar>now\<bar> \<le> 8640000000000000"
  shows "(timeago h loc now (AString s) pure seconds so = Inl RangeError
            \<longleftrightarrow> toDate h (AString s) = None)
       \<and> (toDate h (AString s) = None \<longleftrightarrow>
            (case Date_parse h s of None \<Rightarrow> True | Some t \<Rightarrow> 8640000000000000 < \<bar>t\<bar>))
       \<and> (toDate h (AString s) \<noteq> None \<longrightarrow>
            (\<exists>label. timeago h JSNull now (AString s) pure seconds so = Inr label))"
proof -
  have 1: "timeago h loc now (AString s) pure seconds so = Inl RangeError
      \<longleftrightarrow> toDate h (AString s) = None"
    using assms by (rule timeago_error)
  have 2: "toDate h (AString s) = None \<longleftrightarrow>
      (case Date_parse h s of None \<Rightarrow> True | Some t \<Rightarrow> 8640000000000000 < \<bar>t\<bar>)"
    by (simp add: TimeClip_def split: option.splits)
  have 3: "\<exists>label. timeago h JSNull now (AString s) pure seconds so = Inr label"
    if "toDate h (AString s) \<noteq> None"
  proof -
    from that obtain t where "toDate h (AString s) = Some t"
      by blast
    with assms show ?thesis
      by (rule timeago_label)
  qed
  from 1 2 3 show ?thesis
    by blast
qed

text \<open>
  In the UTC host, at 01:00 of 1 January 2015, the magic called with the ISO 8601 string
  of midnight returns "about 1 hour ago".
\<close>

theorem magic_string_argument_witness:
  "toDate utcHost (AString ''2015-01-01T00:00:00.000Z'') = Some 1420070400000
   \<and> timeago utcHost JSNull 1420074000000 (AString ''2015-01-01T00:00:00.000Z'') None None None
     = Inr ''about 1 hour ago''
   \<and> timeago utcHost JSNull 1420074000000 (AString ''not-a-date'') None None None
     = Inl RangeError"
proof -
  have p: "Date_parse utcHost ''2015-01-01T00:00:00.000Z'' = Some 1420070400000"
    by (simp add: utcHost_def zoneHost_def parse_2015)
  have q: "Date_parse utcHost ''not-a-date'' = None"
    by (simp add: utcHost_def zoneHost_def not_a_date)
  have r: "roundedMinutes utcHost 1420070400000 1420074000000 = 60"
    by (simp add: roundedMinutes_same_offset utc_offsets_2015 Math_trunc_def Math_round_def)
  have "approxToken utcHost False (min 1420070400000 1420074000000)
      (max 1420070400000 1420074000000) = ladder 60"
    using approxToken_ladder [of utcHost 1420070400000 1420074000000] by (simp add: r)
  then have l: "timeago utcHost JSNull 1420074000000 (AString ''2015-01-01T00:00:00.000Z'')
      None None None = Inr ''about 1 hour ago''"
    by (simp add: timeago_def formatDistanceToNow_def constructNow_def formatDistance_token p
        ladder_def callFormatDistance_default formatDistance1_def compareAsc_def)
  show ?thesis
    using magic_string_argument [of 1420074000000 utcHost JSNull
        "''2015-01-01T00:00:00.000Z''" None None None]
      magic_string_argument [of 1420074000000 utcHost JSNull "''not-a-date''" None None None]
    by (simp add: p q l)
qed

lemma labels_utc:
  "formatLabel utcHost [] JSNull 60000 (ADate (Some 0)) = Inr ''1 minute ago''"
  "formatLabel utcHost [] JSNull 60000 (ADate (Some 60000)) = Inr ''less than a minute ago''"
  "formatLabel utcHost [] JSNull 7200000 (ADate (Some 60000)) = Inr ''about 2 hours ago''"
proof -
  have r: "roundedMinutes utcHost 0 60000 = 1" "roundedMinutes utcHost 60000 60000 = 0"
    "roundedMinutes utcHost 60000 7200000 = 119"
    by (simp_all add: roundedMinutes_same_offset utc_offsets Math_trunc_def Math_round_def)
  have t: "approxToken utcHost False (min 0 60000) (max 0 60000) = (XMinutes, 1)"
    "approxToken utcHost False (min 60000 60000) (max 60000 60000) = (LessThanXMinutes, 1)"
    "approxToken utcHost False (min 60000 7200000) (max 60000 7200000) = (AboutXHours, 2)"
    using approxToken_ladder [of utcHost 0 60000] approxToken_ladder [of utcHost 60000 60000]
      approxToken_ladder [of utcHost 60000 7200000]
    by (simp_all add: r ladder_def Math_round_def)
  show "formatLabel utcHost [] JSNull 60000 (ADate (Some 0)) = Inr ''1 minute ago''"
    using t(1)
    by (simp add: formatLabel_def formatDistanceToNow_def constructNow_def formatDistance_token
        callFormatDistance_default formatDistance1_def compareAsc_def)
  show "formatLabel utcHost [] JSNull 60000 (ADate (Some 60000)) = Inr ''less than a minute ago''"
    using t(2)
    by (simp add: formatLabel_def formatDistanceToNow_def constructNow_def formatDistance_token
        callFormatDistance_default formatDistance1_def compareAsc_def)
  show "formatLabel utcHost [] JSNull 7200000 (ADate (Some 60000)) = Inr ''about 2 hours ago''"
    using t(3)
    by (simp add: formatLabel_def formatDistanceToNow_def constructNow_def formatDistance_token
        callFormatDistance_default formatDistance1_def compareAsc_def toString_def digits.simps)
qed

lemma run_js_snoc:
  "run_js h parseISO modifiers w (events @ [e]) =
     step_js h parseISO modifiers (run_js h parseISO modifiers w events) e"
  by (simp add: run_js_def)

text \<open>
  On its own the observer does suspend the timer: leaving the viewport clears it, and the
  return, with \<open>interval\<close> unset, arms a timer and renders once. The invariant holds in
  this variant too.
\<close>

lemma render_js_keeps:
  "timers (render_js h parseISO modifiers now date w) = timers w"
  "interval (render_js h parseISO modifiers now date w) = interval w"
  "nextTimer (render_js h parseISO modifiers now date w) = nextTimer w"
  by (simp_all add: render_js_def dispatch_def Let_def split: sum.splits)

lemma observer_hides:
  assumes "invariant w"
  shows "timers (intersectionObserver h parseISO modifiers now False date w) = Map.empty"
proof (cases "interval w")
  case None
  with assms have "dom (timers w) = {}" by (fastforce simp: invariant_def dom_def)
  with None show ?thesis by (simp add: intersectionObserver_def truthy_def)
next
  case (Some old)
  with assms have "dom (timers w) \<subseteq> {old}" "0 < old"
    by (fastforce simp: invariant_def dom_def)+
  then have "(timers w)(old := None) = Map.empty"
    by (fastforce simp: fun_eq_iff dom_def)
  with Some \<open>0 < old\<close> show ?thesis
    by (simp add: intersectionObserver_def truthy_def clearInterval_def)
qed

lemma observer_shows:
  assumes "interval w = None"
  shows "intersectionObserver h parseISO modifiers now True date w =
           render_js h parseISO modifiers now date
             (w\<lparr>timers := (timers w)(Suc (nextTimer w) \<mapsto> (date, intervalDuration modifiers)),
                nextTimer := Suc (nextTimer w),
                calls := calls w @ [SetInterval (Suc (nextTimer w)) (intervalDuration modifiers)],
                interval := Some (Suc (nextTimer w))\<rparr>)"
  using assms
  by (simp add: intersectionObserver_def truthy_def setupInterval_def setInterval_def Let_def)

lemma invariant_step_js:
  assumes "invariant w"
  shows "invariant (step_js h parseISO modifiers w e)"
proof (cases e)
  case (EffectJS now date)
  have c: "timers (if truthy (interval w) then clearInterval (interval w) w else w) = Map.empty"
  proof (cases "interval w")
    case None
    with assms have "dom (timers w) = {}" by (fastforce simp: invariant_def dom_def)
    with None show ?thesis by (simp add: truthy_def)
  next
    case (Some old)
    with assms have "dom (timers w) \<subseteq> {old}" "0 < old"
      by (fastforce simp: invariant_def dom_def)+
    then have "(timers w)(old := None) = Map.empty"
      by (fastforce simp: fun_eq_iff dom_def)
    with Some \<open>0 < old\<close> show ?thesis by (simp add: truthy_def clearInterval_def)
  qed
  show ?thesis
    unfolding EffectJS step_js.simps effect_js_def
    by (simp add: invariant_def Let_def setupInterval_def setInterval_def render_js_keeps c)
next
  case (Intersection now isIntersecting date)
  show ?thesis
  proof (cases isIntersecting)
    case False
    with Intersection assms show ?thesis
      using observer_hides [OF assms, of h parseISO modifiers now date]
      by (auto simp: invariant_def intersectionObserver_def clearInterval_def truthy_def
          split: option.splits if_splits)
  next
    case True
    show ?thesis
    proof (cases "interval w")
      case None
      with assms have "dom (timers w) = {}" by (fastforce simp: invariant_def dom_def)
      with None True Intersection show ?thesis
        by (simp add: observer_shows invariant_def render_js_keeps)
    next
      case (Some old)
      with assms have "0 < old" by (simp add: invariant_def)
      with Some True Intersection assms show ?thesis
        by (simp add: intersectionObserver_def truthy_def)
    qed
  qed
next
  case (TickJS now tid)
  then show ?thesis
    using assms by (simp add: invariant_def tick_js_def render_js_keeps split: option.splits)
next
  case CleanupJS
  then show ?thesis
    using assms
    by (fastforce simp: invariant_def cleanup_def clearInterval_def dom_def
        split: option.splits if_splits)
qed

lemma invariant_run_js:
  "invariant w \<Longrightarrow> invariant (run_js h parseISO modifiers w events)"
  unfolding run_js_def
  by (induction events arbitrary: w) (simp_all add: invariant_step_js)

text \<open>
  C9. The observer's callback clears the timer when the element leaves the viewport, but
  the callback of \<open>effect\<close> does not look at the visibility: when the bound expression
  changes while the element is hidden, a new timer is armed, its ticks recompute the text,
  and the return to the viewport then neither renders nor arms anything, because
  \<open>interval\<close> is set.
\<close>

theorem gating_rearmed_while_hidden:
  "run_js utcHost parseDateTimeString [] (attached JSNull ''soon'')
       [EffectJS 60000 (ADate (Some 0)), Intersection 60000 False (ADate (Some 0))]
     = \<lparr>moduleLocale = JSNull, textContent = ''1 minute ago'', console = [],
        interval = None, timers = Map.empty, nextTimer = 1,
        calls = [SetTextContent ''1 minute ago'', DispatchEvent True, SetInterval 1 30000,
                 ClearInterval (Some 1)]\<rparr>
   \<and> run_js utcHost parseDateTimeString [] (attached JSNull ''soon'')
       [EffectJS 60000 (ADate (Some 0)), Intersection 60000 False (ADate (Some 0)),
        EffectJS 60000 (ADate (Some 60000))]
     = \<lparr>moduleLocale = JSNull, textContent = ''less than a minute ago'', console = [],
        interval = Some 2, timers = [2 \<mapsto> (ADate (Some 60000), 30000)], nextTimer = 2,
        calls = [SetTextContent ''1 minute ago'', DispatchEvent True, SetInterval 1 30000,
                 ClearInterval (Some 1), SetTextContent ''less than a minute ago'',
                 DispatchEvent False, SetInterval 2 30000]\<rparr>
   \<and> run_js utcHost parseDateTimeString [] (attached JSNull ''soon'')
       [EffectJS 60000 (ADate (Some 0)), Intersection 60000 False (ADate (Some 0)),
        EffectJS 60000 (ADate (Some 60000)), TickJS 7200000 2]
     = \<lparr>moduleLocale = JSNull, textContent = ''about 2 hours ago'', console = [],
        interval = Some 2, timers = [2 \<mapsto> (ADate (Some 60000), 30000)], nextTimer = 2,
        calls = [SetTextContent ''1 minute ago'', DispatchEvent True, SetInterval 1 30000,
                 ClearInterval (Some 1), SetTextContent ''less than a minute ago'',
                 DispatchEvent False, SetInterval 2 30000,
                 SetTextContent ''about 2 hours ago'', DispatchEvent True]\<rparr>
   \<and> run_js utcHost parseDateTimeString [] (attached JSNull ''soon'')
       [EffectJS 60000 (ADate (Some 0)), Intersection 60000 False (ADate (Some 0)),
        EffectJS 60000 (ADate (Some 60000)), TickJS 7200000 2,
        Intersection 7200000 True (ADate (Some 60000))]
     = run_js utcHost parseDateTimeString [] (attached JSNull ''soon'')
       [EffectJS 60000 (ADate (Some 0)), Intersection 60000 False (ADate (Some 0)),
        EffectJS 60000 (ADate (Some 60000)), TickJS 7200000 2]"
proof -
  let ?run = "run_js utcHost parseDateTimeString [] (attached JSNull ''soon'')"
  let ?e0 = "EffectJS 60000 (ADate (Some 0))"
  let ?hide = "Intersection 60000 False (ADate (Some 0))"
  let ?e1 = "EffectJS 60000 (ADate (Some 60000))"
  let ?tick = "TickJS 7200000 2"
  let ?show = "Intersection 7200000 True (ADate (Some 60000))"
  have armed: "?run [?e0]
     = \<lparr>moduleLocale = JSNull, textContent = ''1 minute ago'', console = [],
        interval = Some 1, timers = [1 \<mapsto> (ADate (Some 0), 30000)], nextTimer = 1,
        calls = [SetTextContent ''1 minute ago'', DispatchEvent True, SetInterval 1 30000]\<rparr>"
    by (simp add: run_js_def effect_js_def render_js_def dispatch_def isPast_def
        setupInterval_def setInterval_def truthy_def attached_def intervalDuration_def
        labels_utc)
  have hidden: "?run [?e0, ?hide]
     = \<lparr>moduleLocale = JSNull, textContent = ''1 minute ago'', console = [],
        interval = None, timers = Map.empty, nextTimer = 1,
        calls = [SetTextContent ''1 minute ago'', DispatchEvent True, SetInterval 1 30000,
                 ClearInterval (Some 1)]\<rparr>"
    using run_js_snoc [of utcHost parseDateTimeString "[]" "attached JSNull ''soon''"
        "[?e0]" ?hide]
    by (simp add: armed intersectionObserver_def truthy_def clearInterval_def)
  have rearmed: "?run [?e0, ?hide, ?e1]
     = \<lparr>moduleLocale = JSNull, textContent = ''less than a minute ago'', console = [],
        interval = Some 2, timers = [2 \<mapsto> (ADate (Some 60000), 30000)], nextTimer = 2,
        calls = [SetTextContent ''1 minute ago'', DispatchEvent True, SetInterval 1 30000,
                 ClearInterval (Some 1), SetTextContent ''less than a minute ago'',
                 DispatchEvent False, SetInterval 2 30000]\<rparr>"
    using run_js_snoc [of utcHost parseDateTimeString "[]" "attached JSNull ''soon''"
        "[?e0, ?hide]" ?e1]
    by (simp add: hidden effect_js_def render_js_def dispatch_def isPast_def
        setupInterval_def setInterval_def truthy_def intervalDuration_def labels_utc
        numeral_2_eq_2)
  have ticked: "?run [?e0, ?hide, ?e1, ?tick]
     = \<lparr>moduleLocale = JSNull, textContent = ''about 2 hours ago'', console = [],
        interval = Some 2, timers = [2 \<mapsto> (ADate (Some 60000), 30000)], nextTimer = 2,
        calls = [SetTextContent ''1 minute ago'', DispatchEvent True, SetInterval 1 30000,
                 ClearInterval (Some 1), SetTextContent ''less than a minute ago'',
                 DispatchEvent False, SetInterval 2 30000,
                 SetTextContent ''about 2 hours ago'', DispatchEvent True]\<rparr>"
    using run_js_snoc [of utcHost parseDateTimeString "[]" "attached JSNull ''soon''"
        "[?e0, ?hide, ?e1]" ?tick]
    by (simp add: rearmed tick_js_def render_js_def dispatch_def isPast_def labels_utc)
  have shown: "?run [?e0, ?hide, ?e1, ?tick, ?show] = ?run [?e0, ?hide, ?e1, ?tick]"
    using run_js_snoc [of utcHost parseDateTimeString "[]" "attached JSNull ''soon''"
        "[?e0, ?hide, ?e1, ?tick]" ?show]
    by (simp add: ticked intersectionObserver_def truthy_def)
  from hidden rearmed ticked shown show ?thesis
    by (simp only: simp_thms)
qed

end
